theory Spec2Isabelle
  imports Main
begin

section \<open>Errors and the verifier's ambient state (lekvar.py)\<close>

text \<open>
  The exceptions of the compiler become values. The constructors are the exception classes
  that the source raises by name; the string is the message template, without the formatted
  objects. \<open>AttributeError\<close>, \<open>IndexError\<close>, \<open>NotIterable\<close>, \<open>RuntimeError\<close>,
  \<open>AssertionError\<close>, \<open>RecursionError\<close> and \<open>BuiltinTypeError\<close> are the faults of the Python
  runtime itself (attribute access on \<open>None\<close>, \<open>pop\<close> from an empty list or an index out of
  range, iteration over \<open>None\<close>, a dictionary that grows while it is iterated, a failed
  \<open>assert\<close>, a call stack deeper than the interpreter allows, a call with more arguments than
  the callee takes). The last one is Python's own \<open>TypeError\<close>, which is not the
  \<open>TypeError\<close> of the compiler: \<open>except TypeError\<close> in lekvar.py names the compiler's class.
\<close>

datatype error =
    TypeError string
  | SyntaxError string
  | SemanticError string
  | MissingReferenceError string
  | AmbiguityError string
  | InternalError string
  | AttributeError string
  | IndexError
  | NotIterable
  | RuntimeError string
  | AssertionError
  | RecursionError
  | BuiltinTypeError string

text \<open>
  Types as the verifier meets them in a function signature. \<open>Reference i c\<close> is the type
  object with identity \<open>i\<close> that stands for the class named \<open>c\<close>: a \<open>Reference\<close> object
  (taken as resolved: two references denote the same class exactly when the names agree), or
  the class object itself where the source stores it as a type. \<open>DependentType d\<close> is the
  \<open>DependentType\<close> object at address \<open>d\<close> of the store; it is mutable. The identities matter
  where the source compares type objects (\<open>other not in self.compatibles\<close>).
\<close>

datatype ty = Reference nat string | DependentType nat

text \<open>
  A type that the source reads from a value or a variable may be \<open>None\<close>; so the elements of
  \<open>compatibles\<close>, the \<open>target\<close> and the argument types of a function type are optional.
\<close>

record dependentType =
  compatibles :: "ty option list"
  target :: "ty option"

record variable =
  v_name :: string
  v_type :: "ty option"

record functionType =
  ft_arguments :: "ty option list"
  return_type :: "ty option"
  ft_verified :: bool

text \<open>
  Instructions. Every instruction object carries its identity (a number), because the verifier
  stores references to instruction objects: \<open>Break.loop\<close>, the soft scope stack. The value
  language (references, attributes, calls, literals) is not expanded: a value is an element of
  \<open>'v\<close> and its \<open>verify\<close>, \<open>resolveType\<close> and \<open>copy\<close> methods are supplied as a
  \<open>value_ops\<close> record.
\<close>

datatype 'v instr =
    Return nat "'v option"
  | Branch nat 'v "'v instr list" "'v instr list"
  | Loop nat "'v instr list"
  | Break nat
  | Comment nat string
  | Value 'v

record 'v Function =
  fn_name :: string
  fn_arguments :: "variable list"
  fn_instructions :: "'v instr list"
  fn_type :: functionType
  fn_dependent :: bool
  fn_verified :: bool
  fn_static :: bool
  fn_constructor :: bool

datatype scope_obj =
    Function_ref nat
  | FunctionType_ref nat
  | Module_ref string
  | Method_ref string
  | Class_ref string

datatype soft = Loop_ref nat | Branch_ref nat

text \<open>
  \<open>scope\<close> and \<open>soft_scope_stack\<close> are the two class attributes of \<open>State\<close> that
  \<open>State.scoped\<close> saves and restores (both \<open>None\<close> after \<open>State.init\<close>). The other fields
  are the object store: the function objects, the \<open>DependentType\<close> objects, the attributes
  \<open>Break.loop\<close> and \<open>.function\<close> of instruction objects, and the allocation counter.
\<close>

record 'v State =
  scope :: "scope_obj option"
  soft_scope_stack :: "soft list option"
  function_objs :: "nat \<Rightarrow> 'v Function option"
  dependent_objs :: "nat \<Rightarrow> dependentType option"
  break_loop :: "nat \<Rightarrow> soft option option"
  bound_function :: "nat \<Rightarrow> scope_obj option"
  next_id :: nat

type_synonym ('v, 'a) vm = "'v State \<Rightarrow> (error + 'a) \<times> 'v State"

definition vreturn :: "'a \<Rightarrow> ('v, 'a) vm" where
  "vreturn x = (\<lambda>st. (Inr x, st))"

definition vraise :: "error \<Rightarrow> ('v, 'a) vm" where
  "vraise e = (\<lambda>st. (Inl e, st))"

definition vbind :: "('v, 'a) vm \<Rightarrow> ('a \<Rightarrow> ('v, 'b) vm) \<Rightarrow> ('v, 'b) vm" where
  "vbind m f = (\<lambda>st. case m st of (Inl e, st') \<Rightarrow> (Inl e, st') | (Inr x, st') \<Rightarrow> f x st')"

definition vthen :: "('v, 'a) vm \<Rightarrow> ('v, 'b) vm \<Rightarrow> ('v, 'b) vm" where
  "vthen m k = vbind m (\<lambda>_. k)"

text \<open>
  \<open>State.scoped\<close> is a generator-based context manager without \<open>try\<close>/\<open>finally\<close>: the
  statements after \<open>yield\<close> run only when the body of the \<open>with\<close> block completes; an
  exception raised in the body is thrown into the generator at \<open>yield\<close> and leaves it at once.
\<close>

definition scoped :: "scope_obj \<Rightarrow> ('v, 'a) vm \<Rightarrow> ('v, 'a) vm" where
  "scoped sc body = (\<lambda>st.
     let previous = (scope st, soft_scope_stack st);
         st1 = st\<lparr>scope := Some sc, soft_scope_stack := Some []\<rparr>
     in case body st1 of
          (Inl e, st2) \<Rightarrow> (Inl e, st2)
        | (Inr x, st2) \<Rightarrow> (Inr x, st2\<lparr>scope := fst previous, soft_scope_stack := snd previous\<rparr>))"

definition softScoped :: "soft \<Rightarrow> ('v, 'a) vm \<Rightarrow> ('v, 'a) vm" where
  "softScoped s body = (\<lambda>st.
     case soft_scope_stack st of
       None \<Rightarrow> (Inl (AttributeError ''append''), st)
     | Some stack \<Rightarrow>
         (case body (st\<lparr>soft_scope_stack := Some (stack @ [s])\<rparr>) of
            (Inl e, st2) \<Rightarrow> (Inl e, st2)
          | (Inr x, st2) \<Rightarrow>
              (case soft_scope_stack st2 of
                 None \<Rightarrow> (Inl (AttributeError ''pop''), st2)
               | Some stack2 \<Rightarrow>
                   if stack2 = [] then (Inl IndexError, st2)
                   else (Inr x, st2\<lparr>soft_scope_stack := Some (butlast stack2)\<rparr>))))"

section \<open>Type compatibility of lekvar.py\<close>

text \<open>
  \<open>Class.checkCompatibility(other)\<close> is \<open>other.resolveValue() is self\<close>; a reference
  delegates to the class it names. \<open>other\<close> may be \<open>None\<close> (the type of a value that has
  none), on which \<open>resolveValue\<close> faults. A \<open>DependentType\<close> resolves to itself.
\<close>

definition Class_checkCompatibility :: "string \<Rightarrow> ty option \<Rightarrow> ('v, bool) vm" where
  "Class_checkCompatibility c other =
     (case other of
        None \<Rightarrow> vraise (AttributeError ''resolveValue'')
      | Some (Reference i c') \<Rightarrow> vreturn (c' = c)
      | Some (DependentType d) \<Rightarrow> vreturn False)"

text \<open>
  \<open>DependentType.checkCompatibility\<close>: with a target, only the target is asked; without one,
  \<open>other\<close> is appended to \<open>compatibles\<close> unless that very object is there already, and the
  answer is \<open>True\<close>. The target is what a call supplied as the type of an argument, so it may
  be a \<open>DependentType\<close> again, and the question is passed on. Python bounds the depth of the
  call stack (\<open>sys.getrecursionlimit()\<close>, 1000 unless it is changed) and raises
  \<open>RecursionError\<close> beyond it; the first argument is the number of nested calls still allowed.
\<close>

definition recursion_limit :: nat where
  "recursion_limit = 1000"

fun DependentType_checkCompatibility_depth :: "nat \<Rightarrow> nat \<Rightarrow> ty option \<Rightarrow> ('v, bool) vm" where
  "DependentType_checkCompatibility_depth 0 d other = vraise RecursionError"
| "DependentType_checkCompatibility_depth (Suc depth) d other = (\<lambda>st.
     case dependent_objs st d of
       None \<Rightarrow> (Inl (InternalError ''no such object''), st)
     | Some dt \<Rightarrow>
         (case target dt of
            Some (Reference i c) \<Rightarrow> Class_checkCompatibility c other st
          | Some (DependentType d') \<Rightarrow> DependentType_checkCompatibility_depth depth d' other st
          | None \<Rightarrow>
              (Inr True,
               if other \<in> set (compatibles dt) then st
               else st\<lparr>dependent_objs :=
                         (dependent_objs st)(d \<mapsto> dt\<lparr>compatibles := compatibles dt @ [other]\<rparr>)\<rparr>)))"

definition DependentType_checkCompatibility :: "nat \<Rightarrow> ty option \<Rightarrow> ('v, bool) vm" where
  "DependentType_checkCompatibility d other =
     DependentType_checkCompatibility_depth recursion_limit d other"

definition ty_checkCompatibility :: "ty \<Rightarrow> ty option \<Rightarrow> ('v, bool) vm" where
  "ty_checkCompatibility self other =
     (case self of
        Reference i c \<Rightarrow> Class_checkCompatibility c other
      | DependentType d \<Rightarrow> DependentType_checkCompatibility d other)"

text \<open>\<open>self_arg.checkCompatibility(other_arg)\<close> where \<open>self_arg\<close> itself may be \<open>None\<close>.\<close>

definition arg_checkCompatibility :: "ty option \<Rightarrow> ty option \<Rightarrow> ('v, bool) vm" where
  "arg_checkCompatibility self_arg other_arg =
     (case self_arg of
        None \<Rightarrow> vraise (AttributeError ''checkCompatibility'')
      | Some t \<Rightarrow> ty_checkCompatibility t other_arg)"

text \<open>
  \<open>FunctionType.checkCompatibility\<close> of lekvar.py against another function type: the arities,
  then the argument pairs in order. At the first pair that is not compatible the result is
  that of the reversed check of this pair (the \<open>return\<close> inside the loop). Return types are
  not looked at.
\<close>

fun check_arguments :: "(ty option \<times> ty option) list \<Rightarrow> ('v, bool) vm" where
  "check_arguments [] = vreturn True"
| "check_arguments ((self_arg, other_arg) # rest) =
     vbind (arg_checkCompatibility self_arg other_arg)
       (\<lambda>ok. if \<not> ok then arg_checkCompatibility other_arg self_arg
             else check_arguments rest)"

definition FunctionType_checkCompatibility :: "functionType \<Rightarrow> functionType \<Rightarrow> ('v, bool) vm" where
  "FunctionType_checkCompatibility self other =
     (if length (ft_arguments self) \<noteq> length (ft_arguments other) then vreturn False
      else check_arguments (zip (ft_arguments self) (ft_arguments other)))"

section \<open>Verification of instructions and functions (lekvar.py)\<close>

record 'v value_ops =
  verify_value :: "'v \<Rightarrow> ('v, unit) vm"
  resolveType_value :: "'v \<Rightarrow> ty option"
  copy_value :: "'v \<Rightarrow> 'v"

fun isinstance_Return :: "'v instr \<Rightarrow> bool" where
  "isinstance_Return (Return i v) = True"
| "isinstance_Return _ = False"

fun isinstance_Loop :: "soft \<Rightarrow> bool" where
  "isinstance_Loop (Loop_ref l) = True"
| "isinstance_Loop (Branch_ref b) = False"

definition set_bound_function :: "nat \<Rightarrow> scope_obj \<Rightarrow> 'v State \<Rightarrow> 'v State" where
  "set_bound_function i sc st = st\<lparr>bound_function := (bound_function st)(i \<mapsto> sc)\<rparr>"

text \<open>
  \<open>Return.verify\<close>: the value first (a \<open>Return\<close> without a value faults on
  \<open>self.value.verify()\<close>), then the scope must be a function; a missing return type of the
  function is inferred from the value, a present one is checked against it, and the result of
  that check is thrown away.
\<close>

definition Return_check :: "'v value_ops \<Rightarrow> nat \<Rightarrow> 'v \<Rightarrow> ('v, unit) vm" where
  "Return_check ops i v = (\<lambda>st.
     case scope st of
       Some (Function_ref f) \<Rightarrow>
         (case function_objs st f of
            None \<Rightarrow> (Inl (InternalError ''no such object''), st)
          | Some fn \<Rightarrow>
              let st1 = set_bound_function i (Function_ref f) st in
              (case return_type (fn_type fn) of
                 None \<Rightarrow>
                   (Inr (), st1\<lparr>function_objs := (function_objs st1)
                      (f \<mapsto> fn\<lparr>fn_type := (fn_type fn)\<lparr>return_type := resolveType_value ops v\<rparr>\<rparr>)\<rparr>)
               | Some t \<Rightarrow>
                   vthen (ty_checkCompatibility t (resolveType_value ops v)) (vreturn ()) st1))
     | _ \<Rightarrow> (Inl (SyntaxError ''Cannot return outside of a method''), st))"

definition Return_verify :: "'v value_ops \<Rightarrow> nat \<Rightarrow> 'v option \<Rightarrow> ('v, unit) vm" where
  "Return_verify ops i val =
     (case val of
        None \<Rightarrow> vraise (AttributeError ''verify'')
      | Some v \<Rightarrow> vthen (verify_value ops v) (Return_check ops i v))"

text \<open>
  \<open>Break.verify\<close>: \<open>_getSoftScope\<close> walks \<open>State.soft_scope_stack\<close> from its first element
  (the bottom of the stack, since \<open>softScoped\<close> appends) and returns the first \<open>Loop\<close>.
\<close>

definition getSoftScope :: "'v State \<Rightarrow> error + soft option" where
  "getSoftScope st =
     (case soft_scope_stack st of
        None \<Rightarrow> Inl NotIterable
      | Some stack \<Rightarrow> Inr (find isinstance_Loop stack))"

definition Break_verify :: "nat \<Rightarrow> ('v, unit) vm" where
  "Break_verify i = (\<lambda>st.
     case getSoftScope st of
       Inl e \<Rightarrow> (Inl e, st)
     | Inr loop \<Rightarrow>
         let st1 = st\<lparr>break_loop := (break_loop st)(i \<mapsto> loop)\<rparr> in
         if loop = None then (Inl (SyntaxError ''Cannot break outside loop''), st1)
         else (Inr (), st1))"

text \<open>The guard shared by \<open>Loop.verify\<close> and \<open>Branch.verify\<close>, with the assignment to \<open>self.function\<close>.\<close>

definition inside_function :: "nat \<Rightarrow> ('v, unit) vm" where
  "inside_function i = (\<lambda>st.
     case scope st of
       Some (Function_ref f) \<Rightarrow> (Inr (), set_bound_function i (Function_ref f) st)
     | _ \<Rightarrow> (Inl (SyntaxError ''Cannot branch outside method''), st))"

fun verify_instr :: "'v value_ops \<Rightarrow> 'v instr \<Rightarrow> ('v, unit) vm"
  and verify_instrs :: "'v value_ops \<Rightarrow> 'v instr list \<Rightarrow> ('v, unit) vm" where
  "verify_instr ops (Return i val) = Return_verify ops i val"
| "verify_instr ops (Branch i condition true_instructions false_instructions) =
     vthen (inside_function i)
       (vthen (verify_value ops condition)
          (softScoped (Branch_ref i)
             (vthen (verify_instrs ops true_instructions)
                    (verify_instrs ops false_instructions))))"
| "verify_instr ops (Loop i instructions) =
     vthen (inside_function i)
       (softScoped (Loop_ref i) (verify_instrs ops instructions))"
| "verify_instr ops (Break i) = Break_verify i"
| "verify_instr ops (Comment i contents) = vreturn ()"
| "verify_instr ops (Value v) = verify_value ops v"
| "verify_instrs ops [] = vreturn ()"
| "verify_instrs ops (instruction # rest) =
     vthen (verify_instr ops instruction) (verify_instrs ops rest)"

text \<open>
  \<open>FunctionType.verify\<close> of the type object of function \<open>f\<close>: every argument type and the
  return type are verified inside \<open>State.scoped(self)\<close>. A resolved reference is already
  verified and \<open>DependentType.verify\<close> is \<open>pass\<close>, so each of these calls returns at once;
  an argument type that is \<open>None\<close> has no \<open>verify\<close>.
\<close>

definition ty_verify :: "ty \<Rightarrow> ('v, unit) vm" where
  "ty_verify t = vreturn ()"

fun verify_types :: "ty option list \<Rightarrow> ('v, unit) vm" where
  "verify_types [] = vreturn ()"
| "verify_types (arg # rest) =
     (case arg of
        None \<Rightarrow> vraise (AttributeError ''verify'')
      | Some t \<Rightarrow> vthen (ty_verify t) (verify_types rest))"

definition FunctionType_verify :: "nat \<Rightarrow> ('v, unit) vm" where
  "FunctionType_verify f = (\<lambda>st.
     case function_objs st f of
       None \<Rightarrow> (Inl (InternalError ''no such object''), st)
     | Some fn \<Rightarrow>
         if ft_verified (fn_type fn) then (Inr (), st)
         else
           let st1 = st\<lparr>function_objs := (function_objs st)
                         (f \<mapsto> fn\<lparr>fn_type := (fn_type fn)\<lparr>ft_verified := True\<rparr>\<rparr>)\<rparr>
           in scoped (FunctionType_ref f)
                (vthen (verify_types (ft_arguments (fn_type fn)))
                   (case return_type (fn_type fn) of
                      None \<Rightarrow> vreturn ()
                    | Some t \<Rightarrow> ty_verify t)) st1)"

text \<open>
  \<open>verifySelf\<close>, after the instructions, still inside the function's scope.
  \<open>Function.verifySelf\<close> asks whether some element of \<open>self.instructions\<close> itself is a
  \<open>Return\<close>; \<open>Constructor.verifySelf\<close> overrides it and rejects such an element.
\<close>

fun Constructor_verifySelf :: "'v instr list \<Rightarrow> ('v, unit) vm" where
  "Constructor_verifySelf [] = vreturn ()"
| "Constructor_verifySelf (instruction # rest) =
     (if isinstance_Return instruction
      then vraise (SyntaxError ''Returns within constructors are invalid'')
      else Constructor_verifySelf rest)"

definition Function_verifySelf :: "'v Function \<Rightarrow> ('v, unit) vm" where
  "Function_verifySelf fn =
     (if \<not> list_ex isinstance_Return (fn_instructions fn) \<and> return_type (fn_type fn) \<noteq> None
      then vraise (SemanticError ''All code paths must return'')
      else vreturn ())"

definition verifySelf :: "nat \<Rightarrow> ('v, unit) vm" where
  "verifySelf f = (\<lambda>st.
     case function_objs st f of
       None \<Rightarrow> (Inl (InternalError ''no such object''), st)
     | Some fn \<Rightarrow>
         if fn_constructor fn then Constructor_verifySelf (fn_instructions fn) st
         else Function_verifySelf fn st)"

definition Function_verify :: "'v value_ops \<Rightarrow> nat \<Rightarrow> ('v, unit) vm" where
  "Function_verify ops f = (\<lambda>st.
     case function_objs st f of
       None \<Rightarrow> (Inl (InternalError ''no such object''), st)
     | Some fn \<Rightarrow>
         if fn_verified fn then (Inr (), st)
         else
           let st1 = st\<lparr>function_objs := (function_objs st)(f \<mapsto> fn\<lparr>fn_verified := True\<rparr>)\<rparr>
           in scoped (Function_ref f)
                (vthen (FunctionType_verify f)
                   (vthen (verify_instrs ops (fn_instructions fn))
                      (verifySelf f))) st1)"

section \<open>Construction, copying and call resolution of functions (lekvar.py)\<close>

definition alloc :: "('v, nat) vm" where
  "alloc = (\<lambda>st. (Inr (next_id st), st\<lparr>next_id := Suc (next_id st)\<rparr>))"

text \<open>\<open>DependentType()\<close>: a new object with the given compatibles and no target.\<close>

definition DependentType_init :: "ty option list \<Rightarrow> ('v, nat) vm" where
  "DependentType_init cs =
     vbind alloc (\<lambda>d st.
       (Inr d, st\<lparr>dependent_objs := (dependent_objs st)(d \<mapsto> \<lparr>compatibles = cs, target = None\<rparr>)\<rparr>))"

text \<open>
  The loop of \<open>Function.__init__\<close> over the arguments: an argument without a type receives a
  new \<open>DependentType\<close> and marks the function dependent. The result is the arguments and the
  flag; the argument list of the function type is \<open>[arg.type for arg in arguments]\<close>.
\<close>

fun init_arguments :: "variable list \<Rightarrow> ('v, variable list \<times> bool) vm" where
  "init_arguments [] = vreturn ([], False)"
| "init_arguments (arg # rest) =
     (case v_type arg of
        None \<Rightarrow>
          vbind (DependentType_init []) (\<lambda>d.
            vbind (init_arguments rest) (\<lambda>(args, dep).
              vreturn (arg\<lparr>v_type := Some (DependentType d)\<rparr> # args, True)))
      | Some t \<Rightarrow>
          vbind (init_arguments rest) (\<lambda>(args, dep).
            vreturn (arg # args, dep)))"

definition Function_init ::
  "string \<Rightarrow> variable list \<Rightarrow> 'v instr list \<Rightarrow> ty option \<Rightarrow> ('v, nat) vm" where
  "Function_init name arguments instructions ret =
     vbind (init_arguments arguments) (\<lambda>(args, dep).
       vbind alloc (\<lambda>f st.
         (Inr f, st\<lparr>function_objs := (function_objs st)(f \<mapsto>
            \<lparr>fn_name = name, fn_arguments = args, fn_instructions = instructions,
             fn_type = \<lparr>ft_arguments = map v_type args, return_type = ret, ft_verified = False\<rparr>,
             fn_dependent = dep, fn_verified = False, fn_static = False,
             fn_constructor = False\<rparr>)\<rparr>)))"

text \<open>
  The \<open>copy\<close> methods. \<open>Reference.copy\<close> makes a new reference object to the same name;
  \<open>DependentType.copy\<close> makes a new object with a copy of the compatibles and no target;
  \<open>Return\<close>, \<open>Break\<close> and \<open>Comment\<close> are copied, \<open>Loop.copy\<close> and \<open>Branch.copy\<close> make a new
  object around the same instruction objects. The types of arguments are \<open>Reference\<close> and
  \<open>DependentType\<close> objects; a class object is stored as a return type only, which
  \<open>Function.copy\<close> passes on as it is.
\<close>

definition ty_copy :: "ty \<Rightarrow> ('v, ty) vm" where
  "ty_copy t =
     (case t of
        Reference i c \<Rightarrow> vbind alloc (\<lambda>j. vreturn (Reference j c))
      | DependentType d \<Rightarrow> (\<lambda>st.
          case dependent_objs st d of
            None \<Rightarrow> (Inl (InternalError ''no such object''), st)
          | Some dt \<Rightarrow> vbind (DependentType_init (compatibles dt)) (\<lambda>d'. vreturn (DependentType d')) st))"

definition Variable_copy :: "variable \<Rightarrow> ('v, variable) vm" where
  "Variable_copy var =
     (case v_type var of
        None \<Rightarrow> vreturn var
      | Some t \<Rightarrow> vbind (ty_copy t) (\<lambda>t'. vreturn (var\<lparr>v_type := Some t'\<rparr>)))"

definition instr_copy :: "'v value_ops \<Rightarrow> 'v instr \<Rightarrow> ('v, 'v instr) vm" where
  "instr_copy ops instruction =
     (case instruction of
        Return i val \<Rightarrow> vbind alloc (\<lambda>j. vreturn (Return j (map_option (copy_value ops) val)))
      | Branch i c ts fs \<Rightarrow> vbind alloc (\<lambda>j. vreturn (Branch j c ts fs))
      | Loop i body \<Rightarrow> vbind alloc (\<lambda>j. vreturn (Loop j body))
      | Break i \<Rightarrow> vbind alloc (\<lambda>j. vreturn (Break j))
      | Comment i contents \<Rightarrow> vbind alloc (\<lambda>j. vreturn (Comment j contents))
      | Value v \<Rightarrow> vreturn (Value (copy_value ops v)))"

fun vmap :: "('a \<Rightarrow> ('v, 'b) vm) \<Rightarrow> 'a list \<Rightarrow> ('v, 'b list) vm" where
  "vmap f [] = vreturn []"
| "vmap f (x # xs) = vbind (f x) (\<lambda>y. vbind (vmap f xs) (\<lambda>ys. vreturn (y # ys)))"

definition Function_copy :: "'v value_ops \<Rightarrow> nat \<Rightarrow> ('v, nat) vm" where
  "Function_copy ops f = (\<lambda>st.
     case function_objs st f of
       None \<Rightarrow> (Inl (InternalError ''no such object''), st)
     | Some self \<Rightarrow>
         vbind (vmap Variable_copy (fn_arguments self)) (\<lambda>args.
           vbind (vmap (instr_copy ops) (fn_instructions self)) (\<lambda>instrs.
             vbind (Function_init (fn_name self) args instrs (return_type (fn_type self))) (\<lambda>g st'.
               case function_objs st' g of
                 None \<Rightarrow> (Inl (InternalError ''no such object''), st')
               | Some fn \<Rightarrow>
                   (Inr g, st'\<lparr>function_objs := (function_objs st')
                                 (g \<mapsto> fn\<lparr>fn_static := fn_static self\<rparr>)\<rparr>)))) st)"

text \<open>
  A call type is the function type that \<open>Call.verify\<close> of lekvar.py builds from the types of
  the argument values, \<open>FunctionType("", arg_types)\<close>: whatever \<open>resolveType\<close> of each value
  gives (a reference, a \<open>DependentType\<close>, or \<open>None\<close>), and no return type.
\<close>

definition call_type :: "ty option list \<Rightarrow> functionType" where
  "call_type call = \<lparr>ft_arguments = call, return_type = None, ft_verified = False\<rparr>"

text \<open>
  One step of the loop in \<open>Function.resolveCall\<close>:
  \<open>fn.type.arguments[index] = arg.type.target = call.arguments[index]\<close>.
\<close>

definition assign_target :: "nat \<Rightarrow> nat \<Rightarrow> nat \<Rightarrow> ty option list \<Rightarrow> ('v, unit) vm" where
  "assign_target g index d call = (\<lambda>st.
     if \<not> index < length call then (Inl IndexError, st)
     else
       case function_objs st g of
         None \<Rightarrow> (Inl (InternalError ''no such object''), st)
       | Some fn \<Rightarrow>
           if \<not> index < length (ft_arguments (fn_type fn)) then (Inl IndexError, st)
           else
             let st1 = st\<lparr>function_objs := (function_objs st)(g \<mapsto> fn\<lparr>fn_type := (fn_type fn)
                            \<lparr>ft_arguments := list_update (ft_arguments (fn_type fn)) index (call ! index)\<rparr>\<rparr>)\<rparr>
             in (case dependent_objs st1 d of
                   None \<Rightarrow> (Inl (InternalError ''no such object''), st1)
                 | Some dt \<Rightarrow>
                     (Inr (), st1\<lparr>dependent_objs := (dependent_objs st1)
                                     (d \<mapsto> dt\<lparr>target := call ! index\<rparr>)\<rparr>)))"

fun retarget :: "nat \<Rightarrow> nat \<Rightarrow> variable list \<Rightarrow> ty option list \<Rightarrow> ('v, unit) vm" where
  "retarget g index [] call = vreturn ()"
| "retarget g index (arg # rest) call =
     (case v_type arg of
        Some (DependentType d) \<Rightarrow>
          vthen (assign_target g index d call) (retarget g (Suc index) rest call)
      | _ \<Rightarrow> retarget g (Suc index) rest call)"

definition Function_resolveCall :: "'v value_ops \<Rightarrow> nat \<Rightarrow> ty option list \<Rightarrow> ('v, nat) vm" where
  "Function_resolveCall ops f call = (\<lambda>st.
     case function_objs st f of
       None \<Rightarrow> (Inl (InternalError ''no such object''), st)
     | Some self \<Rightarrow>
         vbind (FunctionType_checkCompatibility (fn_type self) (call_type call)) (\<lambda>ok.
           if \<not> ok then vraise (TypeError ''is not compatible with'')
           else if \<not> fn_dependent self then vreturn f
           else
             vbind (Function_copy ops f) (\<lambda>g st'.
               case function_objs st' g of
                 None \<Rightarrow> (Inl (InternalError ''no such object''), st')
               | Some fn \<Rightarrow>
                   vthen (retarget g 0 (fn_arguments fn) call)
                     (vthen (Function_verify ops g) (vreturn g)) st')) st)"

section \<open>Concrete objects for evaluation\<close>

text \<open>
  \<open>Literal\<close> of lekvar.py: \<open>verify\<close> verifies the stated type (a resolved reference, so it
  returns), \<open>resolveType\<close> is the stated type and \<open>copy\<close> returns the literal itself.
\<close>

datatype literal = Literal string ty

definition literal_ops :: "literal value_ops" where
  "literal_ops = \<lparr>verify_value = (\<lambda>v. vreturn ()),
                  resolveType_value = (\<lambda>v. case v of Literal data t \<Rightarrow> Some t),
                  copy_value = (\<lambda>v. v)\<rparr>"

text \<open>
  The state in which a module named \<open>main\<close> is being verified: \<open>Module.verify\<close> has entered
  \<open>State.scoped(self)\<close>, no function and no \<open>DependentType\<close> has been created yet, and the
  objects that the parser made (the instructions, the references) have identities below 100.
\<close>

definition module_state :: "'v State" where
  "module_state = \<lparr>scope = Some (Module_ref ''main''), soft_scope_stack = Some [],
                   function_objs = (\<lambda>_. None), dependent_objs = (\<lambda>_. None),
                   break_loop = (\<lambda>_. None), bound_function = (\<lambda>_. None), next_id = 100\<rparr>"

text \<open>Creating a function and verifying it; the result is the outcome and the final state.\<close>

definition verify_new_function ::
  "'v value_ops \<Rightarrow> string \<Rightarrow> variable list \<Rightarrow> 'v instr list \<Rightarrow> ty option \<Rightarrow> ('v, nat) vm" where
  "verify_new_function ops name arguments instructions ret =
     vbind (Function_init name arguments instructions ret) (\<lambda>f.
       vthen (Function_verify ops f) (vreturn f))"

definition int_literal :: literal where
  "int_literal = Literal ''1'' (Reference 10 ''Int'')"

definition bool_literal :: literal where
  "bool_literal = Literal ''true'' (Reference 11 ''Bool'')"

section \<open>Constructors (lekvar.py)\<close>

text \<open>
  \<open>Constructor.__init__(function, constructing)\<close>: a new function object of class
  \<open>Constructor\<close> is built from the name, the argument objects, the instructions and the
  return type of \<open>function\<close> (by \<open>Function.__init__\<close>, which makes a new function type). Then
  a declared return type of \<open>function\<close> is refused, and the return type of the type of
  \<open>function\<close> is set to the class.
\<close>

definition Constructor_init :: "nat \<Rightarrow> ty \<Rightarrow> ('v, nat) vm" where
  "Constructor_init function constructing = (\<lambda>st.
     case function_objs st function of
       None \<Rightarrow> (Inl (InternalError ''no such object''), st)
     | Some fn \<Rightarrow>
         vbind (Function_init (fn_name fn) (fn_arguments fn) (fn_instructions fn)
                  (return_type (fn_type fn))) (\<lambda>k st1.
           case function_objs st1 k of
             None \<Rightarrow> (Inl (InternalError ''no such object''), st1)
           | Some self \<Rightarrow>
               let st2 = st1\<lparr>function_objs := (function_objs st1)(k \<mapsto> self\<lparr>fn_constructor := True\<rparr>)\<rparr>
               in if return_type (fn_type fn) \<noteq> None
                  then (Inl (TypeError ''Constructors must return nothing''), st2)
                  else (Inr k, st2\<lparr>function_objs := (function_objs st2)
                          (function \<mapsto> fn\<lparr>fn_type := (fn_type fn)\<lparr>return_type := Some constructing\<rparr>\<rparr>)\<rparr>)) st)"

text \<open>Creating a function, wrapping it into a constructor of a class, and verifying the constructor.\<close>

definition verify_new_constructor ::
  "'v value_ops \<Rightarrow> variable list \<Rightarrow> 'v instr list \<Rightarrow> ty option \<Rightarrow> ty \<Rightarrow> ('v, nat) vm" where
  "verify_new_constructor ops arguments instructions ret constructing =
     vbind (Function_init ''0'' arguments instructions ret) (\<lambda>f.
       vbind (Constructor_init f constructing) (\<lambda>k.
         vthen (Function_verify ops k) (vreturn k)))"

section \<open>Methods and overload resolution (lekvar.py)\<close>














section \<open>Compatibility of function types in function.py and util.py\<close>

text \<open>
  \<open>FunctionType\<close> of function.py: argument types and an optional return type. The classes of
  the argument types of this version are not part of the sources at hand, so the method
  \<open>self_arg.checkCompatibility(other_arg)\<close> of an argument or return type is the parameter
  \<open>cc\<close>. Both operands are function types, so \<open>other.resolveValue()\<close> is \<open>other\<close> and the
  \<open>isinstance\<close> test succeeds.
\<close>

record 't signature =
  sig_arguments :: "'t list"
  sig_return_type :: "'t option"

fun arguments_compatible :: "('t \<Rightarrow> 't \<Rightarrow> bool) \<Rightarrow> ('t \<times> 't) list \<Rightarrow> bool" where
  "arguments_compatible cc [] = True"
| "arguments_compatible cc ((self_arg, other_arg) # rest) =
     (if \<not> cc self_arg other_arg then False else arguments_compatible cc rest)"

text \<open>
  The return types are compared only when \<open>other\<close> has one; then
  \<open>self.return_type.checkCompatibility\<close> is called, which is an attribute access on \<open>None\<close>
  when \<open>self\<close> has no return type.
\<close>

definition function_FunctionType_checkCompatibility ::
  "('t \<Rightarrow> 't \<Rightarrow> bool) \<Rightarrow> 't signature \<Rightarrow> 't signature \<Rightarrow> error + bool" where
  "function_FunctionType_checkCompatibility cc self other =
     (if length (sig_arguments self) \<noteq> length (sig_arguments other) then Inr False
      else if \<not> arguments_compatible cc (zip (sig_arguments self) (sig_arguments other))
      then Inr False
      else (case sig_return_type other of
              Some other_return \<Rightarrow>
                (case sig_return_type self of
                   None \<Rightarrow> Inl (AttributeError ''checkCompatibility'')
                 | Some self_return \<Rightarrow> Inr (cc self_return other_return))
            | None \<Rightarrow> Inr True))"

text \<open>\<open>checkCompatibility(type1, type2)\<close> of util.py: one direction, then the other.\<close>

definition util_checkCompatibility ::
  "('t \<Rightarrow> 't \<Rightarrow> bool) \<Rightarrow> 't signature \<Rightarrow> 't signature \<Rightarrow> error + bool" where
  "util_checkCompatibility cc type1 type2 =
     (case function_FunctionType_checkCompatibility cc type1 type2 of
        Inl e \<Rightarrow> Inl e
      | Inr True \<Rightarrow> Inr True
      | Inr False \<Rightarrow> function_FunctionType_checkCompatibility cc type2 type1)"

text \<open>
  What one direction of the check accepts: all argument pairs, in this direction, and the
  return types when \<open>other\<close> has one.
\<close>

definition direction_accepts :: "('t \<Rightarrow> 't \<Rightarrow> bool) \<Rightarrow> 't signature \<Rightarrow> 't signature \<Rightarrow> bool" where
  "direction_accepts cc self other =
     (list_all2 cc (sig_arguments self) (sig_arguments other) \<and>
      (case sig_return_type other of
         None \<Rightarrow> True
       | Some other_return \<Rightarrow>
           (case sig_return_type self of
              None \<Rightarrow> False
            | Some self_return \<Rightarrow> cc self_return other_return)))"

text \<open>
  \<open>Function.resolveCall\<close> of function.py: the check is \<open>checkCompatibility\<close> of util.py, its
  outcome is the parameter \<open>compatible\<close>. For a dependent function the loop over the
  arguments calls \<open>arg.type.resolveDependency\<close>, a method of \<open>DependentObject\<close>, which is not
  part of the sources at hand; the loop is the parameter \<open>resolve_dependencies\<close>. No copy is
  made: what is returned is the function itself.
\<close>

definition function_Function_resolveCall ::
  "(error + bool) \<Rightarrow> ('s \<Rightarrow> (error + unit) \<times> 's) \<Rightarrow> bool \<Rightarrow> 'f \<Rightarrow> 's \<Rightarrow> (error + 'f) \<times> 's" where
  "function_Function_resolveCall compatible resolve_dependencies dependent self st =
     (case compatible of
        Inl e \<Rightarrow> (Inl e, st)
      | Inr ok \<Rightarrow>
          if \<not> ok then (Inl (TypeError ''Function is not callable with''), st)
          else if dependent
          then (case resolve_dependencies st of
                  (Inl e, st') \<Rightarrow> (Inl e, st')
                | (Inr u, st') \<Rightarrow> (Inr self, st'))
          else (Inr self, st))"

section \<open>The answers of the overloads of a method\<close>






section \<open>What verification leaves alone\<close>

text \<open>
  \<open>fresh st\<close>: no object lives at an address that has not been handed out yet.
  Verification writes to function objects only in the return type of their type
  (\<open>Return.verify\<close>), in the \<open>verified\<close> flag of the type and in their own \<open>verified\<close> flag,
  which is only ever set; and to \<open>DependentType\<close> objects only in \<open>compatibles\<close>.
  \<open>preserved st st'\<close> says that every object of \<open>st\<close> is still there in \<open>st'\<close> and agrees on
  everything else, and that a function that was verified still is. \<open>values_preserve ops\<close>
  asks the same of the verification of values.
\<close>

definition fresh :: "'v State \<Rightarrow> bool" where
  "fresh st \<longleftrightarrow> (\<forall>a. next_id st \<le> a \<longrightarrow> function_objs st a = None \<and> dependent_objs st a = None)"

definition skeleton :: "'v Function \<Rightarrow> 'v Function" where
  "skeleton fn = fn\<lparr>fn_verified := False,
                    fn_type := (fn_type fn)\<lparr>return_type := None, ft_verified := False\<rparr>\<rparr>"

definition preserved :: "'v State \<Rightarrow> 'v State \<Rightarrow> bool" where
  "preserved st st' \<longleftrightarrow>
     (\<forall>f fn. function_objs st f = Some fn \<longrightarrow>
        (\<exists>fn'. function_objs st' f = Some fn' \<and> skeleton fn' = skeleton fn \<and>
               (fn_verified fn \<longrightarrow> fn_verified fn'))) \<and>
     (\<forall>d dt. dependent_objs st d = Some dt \<longrightarrow>
        (\<exists>dt'. dependent_objs st' d = Some dt' \<and> target dt' = target dt))"

definition preserving :: "('v, 'a) vm \<Rightarrow> bool" where
  "preserving m \<longleftrightarrow> (\<forall>st. preserved st (snd (m st)))"

definition values_preserve :: "'v value_ops \<Rightarrow> bool" where
  "values_preserve ops \<longleftrightarrow> (\<forall>v. preserving (verify_value ops v))"

section \<open>Specializations of a dependent function\<close>

text \<open>
  \<open>established st self\<close>: the function object is as \<open>Function.__init__\<close> leaves it. The
  argument types of its type are the types of its arguments, every argument has a type, and
  the \<open>DependentType\<close> objects among them are objects of the store.
\<close>

definition established :: "'v State \<Rightarrow> 'v Function \<Rightarrow> bool" where
  "established st self \<longleftrightarrow>
     ft_arguments (fn_type self) = map v_type (fn_arguments self) \<and>
     list_all (\<lambda>arg. case v_type arg of
                        None \<Rightarrow> False
                      | Some (Reference i c) \<Rightarrow> True
                      | Some (DependentType d) \<Rightarrow> dependent_objs st d \<noteq> None)
              (fn_arguments self)"







text \<open>
  Creating a function and resolving a call to it; and the function \<open>def f(x) 1 end\<close>, whose
  argument has no type, so that \<open>Function.__init__\<close> gives it a \<open>DependentType\<close>.
\<close>

definition resolve_new_function ::
  "'v value_ops \<Rightarrow> string \<Rightarrow> variable list \<Rightarrow> 'v instr list \<Rightarrow> ty option \<Rightarrow> ty option list \<Rightarrow>
   ('v, nat) vm" where
  "resolve_new_function ops name arguments instructions ret call =
     vbind (Function_init name arguments instructions ret) (\<lambda>f. Function_resolveCall ops f call)"

definition dependent_example :: "(literal, nat) vm" where
  "dependent_example =
     Function_init ''f'' [\<lparr>v_name = ''x'', v_type = None\<rparr>] [Value int_literal] None"

text \<open>Two calls of the same function, one after the other; the result is the two answers.\<close>

definition resolve_twice ::
  "'v value_ops \<Rightarrow> nat \<Rightarrow> ty option list \<Rightarrow> ty option list \<Rightarrow> ('v, nat \<times> nat) vm" where
  "resolve_twice ops f call1 call2 =
     vbind (Function_resolveCall ops f call1) (\<lambda>g1.
       vbind (Function_resolveCall ops f call2) (\<lambda>g2. vreturn (g1, g2)))"

section \<open>The lexer (lexer.py)\<close>

text \<open>The enumeration \<open>Tokens\<close>, in the order of the source.\<close>

datatype Tokens =
    newline
  | identifier_tok | const_kwd | ref_kwd | def_kwd | end_kwd | return_kwd | class_kwd | new_kwd
  | as_kwd | module_kwd | loop_kwd | while_kwd | for_kwd | in_kwd | break_kwd | self_kwd
  | if_kwd | elif_kwd | else_kwd | import_kwd | pragma_kwd
  | true_kwd | false_kwd
  | string_tok | format_string | integer_tok | group_start | group_end | typeof | returns
  | dot | comma | assign
  | addition | subtraction | multiplication | integer_division | mod_tok | division
  | equality | inequality | smaller_than | smaller_than_or_equal_to | greater_than
  | greater_than_or_equal_to
  | logical_negation | logical_and | logical_or
  | function_tok

text \<open>
  The names of the members, as Python looks them up: \<open>Tokens.name\<close> is the member of that
  name, and an \<open>AttributeError\<close> for any other name. (\<open>identifier_tok\<close>, \<open>string_tok\<close>,
  \<open>integer_tok\<close>, \<open>mod_tok\<close> and \<open>function_tok\<close> stand for the members \<open>identifier\<close>,
  \<open>string\<close>, \<open>integer\<close>, \<open>mod\<close> and \<open>function\<close>.)
\<close>

definition Tokens_members :: "(string \<times> Tokens) list" where
  "Tokens_members =
     [(''newline'', newline),
      (''identifier'', identifier_tok), (''const_kwd'', const_kwd), (''ref_kwd'', ref_kwd),
      (''def_kwd'', def_kwd), (''end_kwd'', end_kwd), (''return_kwd'', return_kwd),
      (''class_kwd'', class_kwd), (''new_kwd'', new_kwd), (''as_kwd'', as_kwd),
      (''module_kwd'', module_kwd), (''loop_kwd'', loop_kwd), (''while_kwd'', while_kwd),
      (''for_kwd'', for_kwd), (''in_kwd'', in_kwd), (''break_kwd'', break_kwd),
      (''self_kwd'', self_kwd), (''if_kwd'', if_kwd), (''elif_kwd'', elif_kwd),
      (''else_kwd'', else_kwd), (''import_kwd'', import_kwd), (''pragma_kwd'', pragma_kwd),
      (''true_kwd'', true_kwd), (''false_kwd'', false_kwd),
      (''string'', string_tok), (''format_string'', format_string), (''integer'', integer_tok),
      (''group_start'', group_start), (''group_end'', group_end), (''typeof'', typeof),
      (''returns'', returns), (''dot'', dot), (''comma'', comma), (''assign'', assign),
      (''addition'', addition), (''subtraction'', subtraction),
      (''multiplication'', multiplication), (''integer_division'', integer_division),
      (''mod'', mod_tok), (''division'', division), (''equality'', equality),
      (''inequality'', inequality), (''smaller_than'', smaller_than),
      (''smaller_than_or_equal_to'', smaller_than_or_equal_to),
      (''greater_than'', greater_than),
      (''greater_than_or_equal_to'', greater_than_or_equal_to),
      (''logical_negation'', logical_negation), (''logical_and'', logical_and),
      (''logical_or'', logical_or), (''function'', function_tok)]"

definition Tokens_getattr :: "string \<Rightarrow> error + Tokens" where
  "Tokens_getattr name =
     (case map_of Tokens_members name of
        None \<Rightarrow> Inl (AttributeError name)
      | Some t \<Rightarrow> Inr t)"

text \<open>
  \<open>DIRECT_MAP\<close>, in the order of the source: operators, instructions, keywords, constants.
  \<open>KEYWORDS\<close> is its part from \<open>const\<close> on.
\<close>

definition DIRECT_MAP :: "(string \<times> Tokens) list" where
  "DIRECT_MAP =
     [(''+'', addition), (''-'', subtraction), (''*'', multiplication),
      (''//'', integer_division), (''/'', division), (''%'', mod_tok),
      (''=='', equality), (''!='', inequality),
      (''<='', smaller_than_or_equal_to), (''<'', smaller_than),
      (''>='', greater_than_or_equal_to), (''>'', greater_than),
      (''!'', logical_negation), (''&&'', logical_and), (''||'', logical_or),
      (''=>'', function_tok),
      (''('', group_start), ('')'', group_end), ('':'', typeof), (''->'', returns),
      ('','', comma), (''='', assign), (''.'', dot),
      (''const'', const_kwd), (''ref'', ref_kwd), (''def'', def_kwd), (''end'', end_kwd),
      (''return'', return_kwd), (''class'', class_kwd), (''new'', new_kwd), (''as'', as_kwd),
      (''module'', module_kwd), (''loop'', loop_kwd), (''while'', while_kwd),
      (''for'', for_kwd), (''in'', in_kwd), (''break'', break_kwd), (''self'', self_kwd),
      (''elif'', elif_kwd), (''if'', if_kwd), (''else'', else_kwd), (''import'', import_kwd),
      (''pragma'', pragma_kwd),
      (''true'', true_kwd), (''false'', false_kwd)]"

definition KEYWORDS :: "(string \<times> Tokens) list" where
  "KEYWORDS = drop 23 DIRECT_MAP"

text \<open>
  The nodes of the automaton that the module builds at import time. The nodes of the chain of
  the \<open>k\<close>-th entry of \<open>DIRECT_MAP\<close> are \<open>direct_node k 1\<close>, \<dots>, \<open>direct_node k n\<close> for a
  spelling of \<open>n\<close> characters; every entry has a chain of its own. The current character is
  a string of length one, or the empty string at the end of the input, which is \<open>None\<close> here:
  it is in no set, equal to no character and different from every character, and it is not
  Python's \<open>None\<close>.
\<close>

datatype node =
    TREE | newline_node | comment_node
  | format_string_node | escape_node | format_string_end
  | wysiwyg_node | wysiwyg_end
  | direct_node nat nat
  | identifier_node | identifier_end
  | number_node | underscore_node | number_end

definition WHITESPACE :: "char list" where
  "WHITESPACE = [CHR '' '', CHR 0x09]"

definition WORD_CHARACTERS :: "char list" where
  "WORD_CHARACTERS = ''abcdefghijklmnopqrstuvwxyzABCDEFGHIJKLMNOPQRSTUVWXYZ_''"

definition DIGIT_CHARACTERS :: "char list" where
  "DIGIT_CHARACTERS = ''0123456789''"

definition WORD_CHARACTERS_AFTER :: "char list" where
  "WORD_CHARACTERS_AFTER = WORD_CHARACTERS @ DIGIT_CHARACTERS"

definition is_char :: "char \<Rightarrow> char option \<Rightarrow> bool" where
  "is_char x c = (c = Some x)"

definition is_not_char :: "char \<Rightarrow> char option \<Rightarrow> bool" where
  "is_not_char x c = (c \<noteq> Some x)"

definition in_chars :: "char list \<Rightarrow> char option \<Rightarrow> bool" where
  "in_chars xs c = (case c of None \<Rightarrow> False | Some x \<Rightarrow> x \<in> set xs)"

fun links :: "node \<Rightarrow> (node \<times> (char option \<Rightarrow> bool)) list" where
  "links TREE =
     [(TREE, in_chars WHITESPACE),
      (newline_node, is_char CHR 0x0A),
      (comment_node, is_char CHR ''#''),
      (format_string_node, is_char CHR 0x22),
      (wysiwyg_node, is_char CHR 0x60)]
     @ map (\<lambda>k. (direct_node k 1, is_char (hd (fst (DIRECT_MAP ! k))))) [0..<length DIRECT_MAP]
     @ [(identifier_node, in_chars WORD_CHARACTERS),
        (number_node, in_chars DIGIT_CHARACTERS)]"
| "links newline_node = []"
| "links comment_node =
     [(comment_node, is_not_char CHR 0x0A),
      (newline_node, is_char CHR 0x0A)]"
| "links format_string_node =
     [(format_string_node, \<lambda>c. is_not_char CHR 0x22 c \<and> is_not_char CHR 0x5C c),
      (escape_node, is_char CHR 0x5C),
      (format_string_end, is_char CHR 0x22)]"
| "links escape_node = [(format_string_node, \<lambda>c. True)]"
| "links format_string_end = []"
| "links wysiwyg_node =
     [(wysiwyg_node, is_not_char CHR 0x60),
      (wysiwyg_end, is_char CHR 0x60)]"
| "links wysiwyg_end = []"
| "links (direct_node k i) =
     (if k < length DIRECT_MAP \<and> i < length (fst (DIRECT_MAP ! k))
      then [(direct_node k (Suc i), is_char (fst (DIRECT_MAP ! k) ! i))]
      else [])"
| "links identifier_node = [(identifier_end, in_chars WORD_CHARACTERS_AFTER)]"
| "links identifier_end = [(identifier_end, in_chars WORD_CHARACTERS_AFTER)]"
| "links number_node =
     [(underscore_node, is_char CHR ''_''),
      (number_end, in_chars DIGIT_CHARACTERS)]"
| "links underscore_node = [(number_end, in_chars DIGIT_CHARACTERS)]"
| "links number_end =
     [(underscore_node, is_char CHR ''_''),
      (number_end, in_chars DIGIT_CHARACTERS)]"

fun token_type :: "node \<Rightarrow> Tokens option" where
  "token_type newline_node = Some newline"
| "token_type format_string_end = Some format_string"
| "token_type wysiwyg_end = Some string_tok"
| "token_type (direct_node k i) =
     (if k < length DIRECT_MAP \<and> i = length (fst (DIRECT_MAP ! k))
      then Some (snd (DIRECT_MAP ! k)) else None)"
| "token_type identifier_node = Some identifier_tok"
| "token_type identifier_end = Some identifier_tok"
| "token_type number_node = Some integer_tok"
| "token_type number_end = Some integer_tok"
| "token_type _ = None"

text \<open>The post-processor of the two string terminals is \<open>s[1:-1]\<close>.\<close>

fun verify_data :: "node \<Rightarrow> string \<Rightarrow> string" where
  "verify_data format_string_end s = butlast (tl s)"
| "verify_data wysiwyg_end s = butlast (tl s)"
| "verify_data _ s = s"

definition evaluate :: "node \<Rightarrow> char option \<Rightarrow> node list" where
  "evaluate n character = map fst (filter (\<lambda>(target, condition). condition character) (links n))"

record token =
  tok_type :: Tokens
  tok_start :: nat
  tok_end :: nat
  tok_data :: string

record lexer =
  source :: string
  current :: "char option"
  position :: nat

definition lexer_next :: "lexer \<Rightarrow> lexer" where
  "lexer_next lx =
     (case source lx of
        [] \<Rightarrow> lx\<lparr>current := None, position := position lx + 1\<rparr>
      | c # cs \<Rightarrow> lx\<lparr>source := cs, current := Some c, position := position lx + 1\<rparr>)"

definition Lexer_init :: "string \<Rightarrow> lexer" where
  "Lexer_init src = lexer_next \<lparr>source = src, current = None, position = 0\<rparr>"

text \<open>
  \<open>outputNode\<close>: the first node of the list that has a token type gives the token; a
  \<open>TREE\<close> met before that at the end of the input gives \<open>None\<close>.
\<close>

fun outputNode :: "lexer \<Rightarrow> node list \<Rightarrow> nat \<Rightarrow> string \<Rightarrow> error + token option" where
  "outputNode lx [] start data = Inl (SyntaxError ''Unexpected character'')"
| "outputNode lx (n # nodes) start data =
     (case token_type n of
        Some t \<Rightarrow>
          Inr (Some \<lparr>tok_type = t, tok_start = start, tok_end = position lx - 1,
                     tok_data = verify_data n data\<rparr>)
      | None \<Rightarrow>
          if n = TREE \<and> current lx = None then Inr None
          else outputNode lx nodes start data)"

definition step :: "node list \<Rightarrow> char option \<Rightarrow> node list" where
  "step current_nodes character = concat (map (\<lambda>n. evaluate n character) current_nodes)"

function lex_loop :: "lexer \<Rightarrow> nat \<Rightarrow> string \<Rightarrow> node list \<Rightarrow> (error + token option) \<times> lexer" where
  "lex_loop lx token_start token_data current_nodes =
     (let next_nodes = step current_nodes (current lx) in
      if next_nodes = [] then
        (if current_nodes \<noteq> [] then (outputNode lx current_nodes token_start token_data, lx)
         else (Inl (InternalError ''Zero current nodes in lex tree.''), lx))
      else
        let (token_start', token_data') =
              (if next_nodes = [TREE] then (position lx, [])
               else (token_start, token_data @ (case current lx of None \<Rightarrow> [] | Some c \<Rightarrow> [c])))
        in if current lx = None then (Inr None, lx)
           else lex_loop (lexer_next lx) token_start' token_data' next_nodes)"
  by pat_completeness auto
termination
  by (relation "measure (\<lambda>(lx, token_start, token_data, current_nodes).
                   length (source lx) + (if current lx = None then 0 else 1))")
     (auto simp: lexer_next_def split: list.splits)

declare lex_loop.simps [simp del]

definition lex :: "lexer \<Rightarrow> (error + token option) \<times> lexer" where
  "lex lx = lex_loop lx (position lx - 1) [] [TREE]"

text \<open>The live nodes after the characters of \<open>s\<close>, from \<open>TREE\<close>.\<close>

definition live_nodes :: "string \<Rightarrow> node list" where
  "live_nodes s = foldl step [TREE] (map Some s)"

text \<open>
  A lexer that has read \<open>p\<close> characters and has the input \<open>s\<close> before it: the first
  character of \<open>s\<close> is the current one. \<open>delimited rest\<close> says that the input \<open>rest\<close> does
  not continue a word: it is empty or starts with a character that is no letter, digit or
  underscore.
\<close>

definition lexer_at :: "nat \<Rightarrow> string \<Rightarrow> lexer" where
  "lexer_at p s =
     (case s of
        [] \<Rightarrow> \<lparr>source = [], current = None, position = Suc p\<rparr>
      | c # cs \<Rightarrow> \<lparr>source = cs, current = Some c, position = Suc p\<rparr>)"

definition delimited :: "string \<Rightarrow> bool" where
  "delimited rest = (case rest of [] \<Rightarrow> True | c # cs \<Rightarrow> c \<notin> set WORD_CHARACTERS_AFTER)"

text \<open>
  What C8 says of one spelling \<open>kw\<close> with token kind \<open>t\<close>, read at position \<open>p\<close> and
  followed by \<open>rest\<close>: \<open>lex\<close> leaves its loop after the characters of \<open>kw\<close>, with
  exactly the nodes that are live after \<open>kw\<close>, and emits from them; the terminal of a chain
  of \<open>DIRECT_MAP\<close> with kind \<open>t\<close> and the terminal of the identifier automaton are both
  among them; the token has kind \<open>t\<close>.
\<close>

definition keyword_wins :: "string \<Rightarrow> Tokens \<Rightarrow> nat \<Rightarrow> string \<Rightarrow> bool" where
  "keyword_wins kw t p rest \<longleftrightarrow>
     lex (lexer_at p (kw @ rest)) =
       (outputNode (lexer_at (p + length kw) rest) (live_nodes kw) p kw, lexer_at (p + length kw) rest)
     \<and> (\<exists>k. direct_node k (length kw) \<in> set (live_nodes kw) \<and>
             token_type (direct_node k (length kw)) = Some t)
     \<and> identifier_end \<in> set (live_nodes kw)
     \<and> fst (lex (lexer_at p (kw @ rest))) =
         Inr (Some \<lparr>tok_type = t, tok_start = p, tok_end = p + length kw, tok_data = kw\<rparr>)"

section \<open>The parser (parser.py)\<close>

text \<open>
  The nodes that the modelled parser functions build themselves. \<open>NoneValue\<close> is Python's
  \<open>None\<close> where a node is optional; the last argument of a node is its \<open>tokens\<close>, whose
  elements are results of \<open>self.next()\<close> and so may be \<open>None\<close>.
\<close>

datatype ir =
    NoneValue
  | Reference_ir string "token option list"
  | Attribute_ir ir string "token option list"
  | Call_ir ir "ir list" ir "token option list"
  | Branch_ir ir "ir list" "ir list" "token option list"
  | Loop_ir "ir list" "token option list"
  | Break_ir "token option list"

record parser =
  p_lexer :: lexer
  p_tokens :: "token option list"

text \<open>
  A parser function returns a result or an exception and the new parser state, or does not
  return (\<open>None\<close>). The functions without a loop of their own that call no other parser
  function always return and are written without the option.
\<close>

type_synonym 'a pm = "parser \<Rightarrow> ((error + 'a) \<times> parser) option"

definition Parser_init :: "string \<Rightarrow> parser" where
  "Parser_init src = \<lparr>p_lexer = Lexer_init src, p_tokens = []\<rparr>"

definition lexer_lex :: "parser \<Rightarrow> (error + token option) \<times> parser" where
  "lexer_lex ps = (case lex (p_lexer ps) of (r, lx) \<Rightarrow> (r, ps\<lparr>p_lexer := lx\<rparr>))"

definition Parser_next :: "parser \<Rightarrow> (error + token option) \<times> parser" where
  "Parser_next ps =
     (case p_tokens ps of
        [] \<Rightarrow> lexer_lex ps
      | t # ts \<Rightarrow> (Inr t, ps\<lparr>p_tokens := ts\<rparr>))"

text \<open>\<open>lookAhead(num)\<close>: the buffer is filled up to \<open>num\<close> tokens, the result is \<open>self.tokens[num - 1]\<close>.\<close>

fun fill_tokens :: "nat \<Rightarrow> parser \<Rightarrow> (error + unit) \<times> parser" where
  "fill_tokens 0 ps = (Inr (), ps)"
| "fill_tokens (Suc n) ps =
     (case lexer_lex ps of
        (Inl e, ps') \<Rightarrow> (Inl e, ps')
      | (Inr t, ps') \<Rightarrow> fill_tokens n (ps'\<lparr>p_tokens := p_tokens ps' @ [t]\<rparr>))"

definition lookAhead :: "nat \<Rightarrow> parser \<Rightarrow> (error + token option) \<times> parser" where
  "lookAhead num ps =
     (case fill_tokens (num - length (p_tokens ps)) ps of
        (Inl e, ps') \<Rightarrow> (Inl e, ps')
      | (Inr u, ps') \<Rightarrow>
          if num = 0 then
            (if p_tokens ps' = [] then (Inl IndexError, ps') else (Inr (last (p_tokens ps')), ps'))
          else (Inr (p_tokens ps' ! (num - 1)), ps'))"

definition unexpected :: "token option \<Rightarrow> error" where
  "unexpected token =
     (case token of None \<Rightarrow> AttributeError ''type'' | Some t \<Rightarrow> SyntaxError ''Unexpected'')"

definition expect :: "Tokens \<Rightarrow> parser \<Rightarrow> (error + token) \<times> parser" where
  "expect type ps =
     (case Parser_next ps of
        (Inl e, ps') \<Rightarrow> (Inl e, ps')
      | (Inr None, ps') \<Rightarrow> (Inl (SyntaxError ''Expected before EOF''), ps')
      | (Inr (Some token), ps') \<Rightarrow>
          if tok_type token \<noteq> type then (Inl (unexpected (Some token)), ps')
          else (Inr token, ps'))"

text \<open>\<open>strip(types)\<close>: tokens of these types are skipped; the result is the next token, not consumed.\<close>

partial_function (option) strip :: "Tokens list \<Rightarrow> parser \<Rightarrow> ((error + token option) \<times> parser) option" where
  "strip types ps =
     (case lookAhead 1 ps of
        (Inl e, ps1) \<Rightarrow> Some (Inl e, ps1)
      | (Inr None, ps1) \<Rightarrow> Some (Inr None, ps1)
      | (Inr (Some token), ps1) \<Rightarrow>
          if tok_type token \<in> set types then
            (case Parser_next ps1 of
               (Inl e, ps2) \<Rightarrow> Some (Inl e, ps2)
             | (Inr t, ps2) \<Rightarrow> strip types ps2)
          else Some (Inr (Some token), ps1))"

text \<open>
  The parser functions that are not expanded here are parameters: the functions that
  \<open>parseLine\<close> dispatches to, and those that \<open>parseUnaryOperation\<close> and \<open>parseValue\<close> call.
\<close>

record callees =
  parseComment :: "ir pm"
  parseReturn :: "ir pm"
  parseImport :: "ir pm"
  parseBranch :: "ir pm"
  parseWhile_callee :: "ir pm"
  parseLoop :: "ir pm"
  parseBreak :: "ir pm"
  parseAssignment :: "ir pm"
  parseSingleValue :: "ir pm"
  parseCall :: "ir \<Rightarrow> ir pm"
  parseAttribute :: "ir \<Rightarrow> ir pm"
  parseCast :: "ir \<Rightarrow> ir pm"
  parseBinaryOperation :: "ir list \<Rightarrow> token option list \<Rightarrow> error + ir"

definition BINARY_OPERATION_TOKENS :: "Tokens list" where
  "BINARY_OPERATION_TOKENS =
     [equality, inequality, smaller_than, smaller_than_or_equal_to, greater_than,
      greater_than_or_equal_to, addition, subtraction, multiplication, division,
      integer_division]"

definition UNARY_OPERATIONS :: "Tokens list" where
  "UNARY_OPERATIONS = [addition, subtraction, logical_negation]"

text \<open>
  \<open>parseUnaryOperation\<close>. Each of its loops starts with \<open>self.strip([Tokens.comment])\<close>; the
  argument is evaluated first, by the attribute lookup \<open>Tokens.comment\<close>.
\<close>

partial_function (option) prefix_operations :: "token option list \<Rightarrow> parser \<Rightarrow> ((error + token option list) \<times> parser) option" where
  "prefix_operations operations ps =
     (case Tokens_getattr ''comment'' of
        Inl e \<Rightarrow> Some (Inl e, ps)
      | Inr comment \<Rightarrow>
          (case strip [comment] ps of
             None \<Rightarrow> None
           | Some (Inl e, ps1) \<Rightarrow> Some (Inl e, ps1)
           | Some (Inr None, ps1) \<Rightarrow> Some (Inr operations, ps1)
           | Some (Inr (Some token), ps1) \<Rightarrow>
               if tok_type token \<in> set UNARY_OPERATIONS then
                 (case Parser_next ps1 of
                    (Inl e, ps2) \<Rightarrow> Some (Inl e, ps2)
                  | (Inr t, ps2) \<Rightarrow> prefix_operations (t # operations) ps2)
               else Some (Inr operations, ps1)))"

fun make_prefix_operations :: "ir \<Rightarrow> token option list \<Rightarrow> error + ir" where
  "make_prefix_operations val [] = Inr val"
| "make_prefix_operations val (None # operations) = Inl (AttributeError ''data'')"
| "make_prefix_operations val (Some operation # operations) =
     make_prefix_operations
       (Call_ir (Attribute_ir val (tok_data operation) []) [] NoneValue [Some operation])
       operations"

partial_function (option) postfix_operations :: "callees \<Rightarrow> ir \<Rightarrow> parser \<Rightarrow> ((error + ir) \<times> parser) option" where
  "postfix_operations cs val ps =
     (case Tokens_getattr ''comment'' of
        Inl e \<Rightarrow> Some (Inl e, ps)
      | Inr comment \<Rightarrow>
          (case strip [comment] ps of
             None \<Rightarrow> None
           | Some (Inl e, ps1) \<Rightarrow> Some (Inl e, ps1)
           | Some (Inr None, ps1) \<Rightarrow> Some (Inr val, ps1)
           | Some (Inr (Some token), ps1) \<Rightarrow>
               if tok_type token = group_start then
                 (case parseCall cs val ps1 of
                    None \<Rightarrow> None
                  | Some (Inl e, ps2) \<Rightarrow> Some (Inl e, ps2)
                  | Some (Inr val', ps2) \<Rightarrow> postfix_operations cs val' ps2)
               else if tok_type token = dot then
                 (case parseAttribute cs val ps1 of
                    None \<Rightarrow> None
                  | Some (Inl e, ps2) \<Rightarrow> Some (Inl e, ps2)
                  | Some (Inr val', ps2) \<Rightarrow> postfix_operations cs val' ps2)
               else if tok_type token = as_kwd then
                 (case parseCast cs val ps1 of
                    None \<Rightarrow> None
                  | Some (Inl e, ps2) \<Rightarrow> Some (Inl e, ps2)
                  | Some (Inr val', ps2) \<Rightarrow> postfix_operations cs val' ps2)
               else Some (Inr val, ps1)))"

definition parseUnaryOperation :: "callees \<Rightarrow> ir pm" where
  "parseUnaryOperation cs ps =
     (case prefix_operations [] ps of
        None \<Rightarrow> None
      | Some (Inl e, ps1) \<Rightarrow> Some (Inl e, ps1)
      | Some (Inr operations, ps1) \<Rightarrow>
          (case parseSingleValue cs ps1 of
             None \<Rightarrow> None
           | Some (Inl e, ps2) \<Rightarrow> Some (Inl e, ps2)
           | Some (Inr val, ps2) \<Rightarrow>
               (case make_prefix_operations val operations of
                  Inl e \<Rightarrow> Some (Inl e, ps2)
                | Inr val' \<Rightarrow> postfix_operations cs val' ps2)))"

text \<open>\<open>parseValue\<close>: a unary operation, then binary operators with further unary operations.\<close>

partial_function (option) binary_operations :: "callees \<Rightarrow> ir list \<Rightarrow> token option list \<Rightarrow> parser \<Rightarrow> ((error + ir list \<times> token option list) \<times> parser) option" where
  "binary_operations cs vals operations ps =
     (case Tokens_getattr ''comment'' of
        Inl e \<Rightarrow> Some (Inl e, ps)
      | Inr comment \<Rightarrow>
          (case strip [comment] ps of
             None \<Rightarrow> None
           | Some (Inl e, ps1) \<Rightarrow> Some (Inl e, ps1)
           | Some (Inr None, ps1) \<Rightarrow> Some (Inr (vals, operations), ps1)
           | Some (Inr (Some token), ps1) \<Rightarrow>
               if tok_type token \<in> set BINARY_OPERATION_TOKENS then
                 (case Parser_next ps1 of
                    (Inl e, ps2) \<Rightarrow> Some (Inl e, ps2)
                  | (Inr t, ps2) \<Rightarrow>
                      (case parseUnaryOperation cs ps2 of
                         None \<Rightarrow> None
                       | Some (Inl e, ps3) \<Rightarrow> Some (Inl e, ps3)
                       | Some (Inr val, ps3) \<Rightarrow>
                           binary_operations cs (vals @ [val]) (operations @ [t]) ps3))
               else Some (Inr (vals, operations), ps1)))"

definition parseValue :: "callees \<Rightarrow> ir pm" where
  "parseValue cs ps =
     (case parseUnaryOperation cs ps of
        None \<Rightarrow> None
      | Some (Inl e, ps1) \<Rightarrow> Some (Inl e, ps1)
      | Some (Inr val, ps1) \<Rightarrow>
          (case binary_operations cs [val] [] ps1 of
             None \<Rightarrow> None
           | Some (Inl e, ps2) \<Rightarrow> Some (Inl e, ps2)
           | Some (Inr (vals, operations), ps2) \<Rightarrow>
               Some (parseBinaryOperation cs vals operations, ps2)))"

text \<open>
  \<open>parseLine\<close>. After the test for the end of the input, the first comparison is
  \<open>token.type == Tokens.comment\<close>; the look-ahead for an assignment compares with
  \<open>Tokens.equal\<close>. A member that exists in \<open>Tokens\<close> is written as its constructor; these
  two are looked up by name.
\<close>

fun assignment_lookahead :: "nat list \<Rightarrow> parser \<Rightarrow> (error + bool) \<times> parser" where
  "assignment_lookahead [] ps = (Inr False, ps)"
| "assignment_lookahead (i # rest) ps =
     (case lookAhead i ps of
        (Inl e, ps') \<Rightarrow> (Inl e, ps')
      | (Inr None, ps') \<Rightarrow> assignment_lookahead rest ps'
      | (Inr (Some token), ps') \<Rightarrow>
          (case Tokens_getattr ''equal'' of
             Inl e \<Rightarrow> (Inl e, ps')
           | Inr equal \<Rightarrow>
               if tok_type token = equal then (Inr True, ps')
               else assignment_lookahead rest ps'))"

definition parseLine :: "callees \<Rightarrow> ir pm" where
  "parseLine cs ps =
     (case lookAhead 1 ps of
        (Inl e, ps1) \<Rightarrow> Some (Inl e, ps1)
      | (Inr None, ps1) \<Rightarrow> Some (Inr NoneValue, ps1)
      | (Inr (Some token), ps1) \<Rightarrow>
          (case Tokens_getattr ''comment'' of
             Inl e \<Rightarrow> Some (Inl e, ps1)
           | Inr comment \<Rightarrow>
               if tok_type token = comment then parseComment cs ps1
               else if tok_type token = return_kwd then parseReturn cs ps1
               else if tok_type token = import_kwd then parseImport cs ps1
               else if tok_type token = if_kwd then parseBranch cs ps1
               else if tok_type token = while_kwd then parseWhile_callee cs ps1
               else if tok_type token = loop_kwd then parseLoop cs ps1
               else if tok_type token = break_kwd then parseBreak cs ps1
               else if tok_type token = identifier_tok \<or> tok_type token = const_kwd then
                 (case assignment_lookahead [0..<6] ps1 of
                    (Inl e, ps2) \<Rightarrow> Some (Inl e, ps2)
                  | (Inr True, ps2) \<Rightarrow> parseAssignment cs ps2
                  | (Inr False, ps2) \<Rightarrow> parseValue cs ps2)
               else parseValue cs ps1))"

text \<open>
  \<open>parseWhile\<close>: the keyword, the condition, the lines up to \<open>end\<close>; the result is a
  \<open>Loop\<close> whose first instruction is \<open>Branch(condition, [], [Break()])\<close>.
\<close>

partial_function (option) while_body :: "callees \<Rightarrow> token option list \<Rightarrow> ir list \<Rightarrow> parser \<Rightarrow> ((error + token option list \<times> ir list) \<times> parser) option" where
  "while_body cs tokens instructions ps =
     (case lookAhead 1 ps of
        (Inl e, ps1) \<Rightarrow> Some (Inl e, ps1)
      | (Inr None, ps1) \<Rightarrow>
          Some (Inl (SyntaxError ''Expected `end` before EOF for while loop''), ps1)
      | (Inr (Some token), ps1) \<Rightarrow>
          if tok_type token = end_kwd then
            (case Parser_next ps1 of
               (Inl e, ps2) \<Rightarrow> Some (Inl e, ps2)
             | (Inr t, ps2) \<Rightarrow> Some (Inr (tokens @ [t], instructions), ps2))
          else
            (case parseLine cs ps1 of
               None \<Rightarrow> None
             | Some (Inl e, ps2) \<Rightarrow> Some (Inl e, ps2)
             | Some (Inr instruction, ps2) \<Rightarrow>
                 while_body cs tokens (instructions @ [instruction]) ps2))"

definition parseWhile :: "callees \<Rightarrow> ir pm" where
  "parseWhile cs ps =
     (case Parser_next ps of
        (Inl e, ps1) \<Rightarrow> Some (Inl e, ps1)
      | (Inr None, ps1) \<Rightarrow> Some (Inl (AttributeError ''type''), ps1)
      | (Inr (Some token), ps1) \<Rightarrow>
          if tok_type token \<noteq> while_kwd then Some (Inl AssertionError, ps1)
          else
            (case parseValue cs ps1 of
               None \<Rightarrow> None
             | Some (Inl e, ps2) \<Rightarrow> Some (Inl e, ps2)
             | Some (Inr condition, ps2) \<Rightarrow>
                 (case while_body cs [Some token] [] ps2 of
                    None \<Rightarrow> None
                  | Some (Inl e, ps3) \<Rightarrow> Some (Inl e, ps3)
                  | Some (Inr (tokens, instructions), ps3) \<Rightarrow>
                      Some (Inr (Loop_ir (Branch_ir condition [] [Break_ir []] [] # instructions)
                                   tokens), ps3))))"

text \<open>
  \<open>parseTypeSig\<close>, \<open>parseVariable\<close> and \<open>parseMethodArguments\<close>. \<open>parseVariable\<close> ends
  with \<open>lekvar.Variable(name, type, constant, tokens)\<close>; the class \<open>Variable\<close> (in lekvar.py
  and in variable.py alike) takes \<open>name\<close>, \<open>type\<close> and \<open>tokens\<close>, so once the arguments have been
  evaluated the call itself is refused by Python.
\<close>

definition parseTypeSig :: "callees \<Rightarrow> Tokens \<Rightarrow> ir pm" where
  "parseTypeSig cs typeof_token ps =
     (case lookAhead 1 ps of
        (Inl e, ps1) \<Rightarrow> Some (Inl e, ps1)
      | (Inr None, ps1) \<Rightarrow> Some (Inl (AttributeError ''type''), ps1)
      | (Inr (Some token), ps1) \<Rightarrow>
          if tok_type token \<noteq> typeof_token then Some (Inr NoneValue, ps1)
          else
            (case Parser_next ps1 of
               (Inl e, ps2) \<Rightarrow> Some (Inl e, ps2)
             | (Inr t, ps2) \<Rightarrow> parseValue cs ps2))"

definition parseVariable :: "callees \<Rightarrow> ir pm" where
  "parseVariable cs ps =
     (case lookAhead 1 ps of
        (Inl e, ps1) \<Rightarrow> Some (Inl e, ps1)
      | (Inr None, ps1) \<Rightarrow> Some (Inl (AttributeError ''type''), ps1)
      | (Inr (Some token), ps1) \<Rightarrow>
          (case (if tok_type token = const_kwd
                 then (case Parser_next ps1 of
                         (Inl e, ps2) \<Rightarrow> (Inl e, ps2)
                       | (Inr t, ps2) \<Rightarrow> (Inr ([t], True), ps2))
                 else (Inr ([], False), ps1)) of
             (Inl e, ps2) \<Rightarrow> Some (Inl e, ps2)
           | (Inr (tokens, constant), ps2) \<Rightarrow>
               (case expect identifier_tok ps2 of
                  (Inl e, ps3) \<Rightarrow> Some (Inl e, ps3)
                | (Inr name, ps3) \<Rightarrow>
                    (case parseTypeSig cs typeof ps3 of
                       None \<Rightarrow> None
                     | Some (Inl e, ps4) \<Rightarrow> Some (Inl e, ps4)
                     | Some (Inr type, ps4) \<Rightarrow>
                         Some (Inl (BuiltinTypeError
                                 ''__init__() takes from 2 to 4 positional arguments but 5 were given''),
                               ps4)))))"

partial_function (option) method_arguments :: "callees \<Rightarrow> ir list \<Rightarrow> ir list \<Rightarrow> parser \<Rightarrow> ((error + ir list \<times> ir list) \<times> parser) option" where
  "method_arguments cs arguments default_values ps =
     (case parseVariable cs ps of
        None \<Rightarrow> None
      | Some (Inl e, ps1) \<Rightarrow> Some (Inl e, ps1)
      | Some (Inr variable, ps1) \<Rightarrow>
          (case Parser_next ps1 of
             (Inl e, ps2) \<Rightarrow> Some (Inl e, ps2)
           | (Inr None, ps2) \<Rightarrow> Some (Inl (AttributeError ''type''), ps2)
           | (Inr (Some token), ps2) \<Rightarrow>
               (case Tokens_getattr ''equal'' of
                  Inl e \<Rightarrow> Some (Inl e, ps2)
                | Inr equal \<Rightarrow>
                    (case (if tok_type token = equal
                           then (case parseValue cs ps2 of
                                   None \<Rightarrow> None
                                 | Some (Inl e, ps3) \<Rightarrow> Some (Inl e, ps3)
                                 | Some (Inr val, ps3) \<Rightarrow>
                                     (case Parser_next ps3 of
                                        (Inl e, ps4) \<Rightarrow> Some (Inl e, ps4)
                                      | (Inr t, ps4) \<Rightarrow> Some (Inr (val, t), ps4)))
                           else Some (Inr (NoneValue, Some token), ps2)) of
                       None \<Rightarrow> None
                     | Some (Inl e, ps5) \<Rightarrow> Some (Inl e, ps5)
                     | Some (Inr (default_value, None), ps5) \<Rightarrow>
                         Some (Inl (AttributeError ''type''), ps5)
                     | Some (Inr (default_value, Some token'), ps5) \<Rightarrow>
                         if tok_type token' = comma then
                           method_arguments cs (arguments @ [variable])
                             (default_values @ [default_value]) ps5
                         else if tok_type token' = group_end then
                           Some (Inr (arguments @ [variable], default_values @ [default_value]), ps5)
                         else Some (Inl (unexpected (Some token')), ps5)))))"

definition parseMethodArguments :: "callees \<Rightarrow> (ir list \<times> ir list) pm" where
  "parseMethodArguments cs ps =
     (case Parser_next ps of
        (Inl e, ps1) \<Rightarrow> Some (Inl e, ps1)
      | (Inr None, ps1) \<Rightarrow> Some (Inl (AttributeError ''type''), ps1)
      | (Inr (Some token), ps1) \<Rightarrow>
          if tok_type token \<noteq> group_start then Some (Inl (unexpected (Some token)), ps1)
          else
            (case lookAhead 1 ps1 of
               (Inl e, ps2) \<Rightarrow> Some (Inl e, ps2)
             | (Inr None, ps2) \<Rightarrow> Some (Inl (AttributeError ''type''), ps2)
             | (Inr (Some token'), ps2) \<Rightarrow>
                 if tok_type token' \<noteq> group_end then method_arguments cs [] [] ps2
                 else
                   (case Parser_next ps2 of
                      (Inl e, ps3) \<Rightarrow> Some (Inl e, ps3)
                    | (Inr t, ps3) \<Rightarrow> Some (Inr ([], []), ps3))))"

text \<open>The names of the members of \<open>Tokens\<close> that parser.py reads, in the order of their first use.\<close>

definition parser_Tokens_names :: "string list" where
  "parser_Tokens_names =
     [''equality'', ''inequality'', ''smaller_than'', ''smaller_than_or_equal_to'',
      ''greater_than'', ''greater_than_or_equal_to'', ''addition'', ''subtraction'',
      ''multiplication'', ''division'', ''integer_division'', ''logical_negation'',
      ''module_kwd'', ''identifier'', ''end_kwd'', ''comment'', ''return_kwd'', ''import_kwd'',
      ''if_kwd'', ''while_kwd'', ''loop_kwd'', ''break_kwd'', ''const_kwd'', ''equal'',
      ''group_start'', ''dot'', ''as_kwd'', ''def_kwd'', ''class_kwd'', ''integer'',
      ''true_kwd'', ''false_kwd'', ''string'', ''format_string'', ''group_end'', ''typeof'',
      ''self_kwd'', ''returns'', ''new_kwd'', ''comma'', ''else_kwd'']"

section \<open>Properties of the scope discipline\<close>

lemmas vm_defs = vbind_def vthen_def vreturn_def vraise_def

lemmas verifier_defs =
  verify_new_function_def Function_init_def Function_verify_def alloc_def DependentType_init_def
  scoped_def softScoped_def FunctionType_verify_def verifySelf_def Function_verifySelf_def
  Return_verify_def Return_check_def inside_function_def set_bound_function_def Break_verify_def getSoftScope_def
  ty_verify_def ty_checkCompatibility_def Class_checkCompatibility_def
  arg_checkCompatibility_def

lemmas example_defs = module_state_def literal_ops_def int_literal_def bool_literal_def

lemma scoped_normal_exit:
  "body (st\<lparr>scope := Some sc, soft_scope_stack := Some []\<rparr>) = (Inr x, st2) \<Longrightarrow>
   scoped sc body st = (Inr x, st2\<lparr>scope := scope st, soft_scope_stack := soft_scope_stack st\<rparr>)"
  by (simp add: scoped_def)

lemma scoped_raise:
  "body (st\<lparr>scope := Some sc, soft_scope_stack := Some []\<rparr>) = (Inl e, st2) \<Longrightarrow>
   scoped sc body st = (Inl e, st2)"
  by (simp add: scoped_def)

lemma softScoped_normal_exit:
  assumes "soft_scope_stack st = Some stack"
    and "body (st\<lparr>soft_scope_stack := Some (stack @ [s])\<rparr>) = (Inr x, st2)"
    and "soft_scope_stack st2 = Some (stack @ [s])"
  shows "softScoped s body st = (Inr x, st2\<lparr>soft_scope_stack := Some stack\<rparr>)"
  using assms by (simp add: softScoped_def)

lemma softScoped_raise:
  assumes "soft_scope_stack st = Some stack"
    and "body (st\<lparr>soft_scope_stack := Some (stack @ [s])\<rparr>) = (Inl e, st2)"
  shows "softScoped s body st = (Inl e, st2)"
  using assms by (simp add: softScoped_def)

text \<open>
  C6. The claim: after an exception propagates out of a region entered with \<open>State.scoped\<close>
  or \<open>State.softScoped\<close>, the scope and the soft scope stack equal their values before entry.
  The code restores them only on normal completion (\<open>scoped_normal_exit\<close>,
  \<open>softScoped_normal_exit\<close>). Here a function whose body is a loop around a \<open>return\<close>
  without a value is verified while the module \<open>main\<close> is the scope: the \<open>Return\<close> faults
  inside \<open>softScoped\<close> inside \<open>scoped\<close>, and afterwards the scope is still the function and
  the loop is still on the soft scope stack.
\<close>

theorem scoped_not_restored_after_error:
  "fst (verify_new_function literal_ops ''f'' [] [Loop 1 [Return 2 None]] None module_state)
     = Inl (AttributeError ''verify'')
   \<and> scope (snd (verify_new_function literal_ops ''f'' [] [Loop 1 [Return 2 None]] None module_state))
     = Some (Function_ref 100)
   \<and> soft_scope_stack (snd (verify_new_function literal_ops ''f'' [] [Loop 1 [Return 2 None]] None module_state))
     = Some [Loop_ref 1]
   \<and> scope (module_state :: literal State) = Some (Module_ref ''main'')
   \<and> soft_scope_stack (module_state :: literal State) = Some []"
  by (simp add: verifier_defs vm_defs example_defs)

section \<open>Break\<close>

lemma Break_verify_no_loop:
  assumes "soft_scope_stack st = Some stack" and "find isinstance_Loop stack = None"
  shows "fst (Break_verify i st) = Inl (SyntaxError ''Cannot break outside loop'')"
  using assms by (simp add: Break_verify_def getSoftScope_def)

lemma Break_verify_first_loop:
  assumes "soft_scope_stack st = Some stack" and "find isinstance_Loop stack = Some l"
  shows "Break_verify i st = (Inr (), st\<lparr>break_loop := (break_loop st)(i \<mapsto> Some l)\<rparr>)"
  using assms by (simp add: Break_verify_def getSoftScope_def)

text \<open>
  C5. The claim: a \<open>Break\<close> fails when no \<open>Loop\<close> is on the soft scope stack
  (\<open>Break_verify_no_loop\<close>: it does), and otherwise is bound to the innermost enclosing
  \<open>Loop\<close>. The code binds it to the first \<open>Loop\<close> of the stack, which is the outermost one
  (\<open>Break_verify_first_loop\<close>): in a function whose body is \<open>Loop 1\<close> around \<open>Loop 2\<close>
  around \<open>Break 3\<close>, verification succeeds and \<open>Break 3\<close> is bound to \<open>Loop 1\<close>.
\<close>

theorem Break_binds_outermost_loop:
  "fst (verify_new_function literal_ops ''f'' [] [Loop 1 [Loop 2 [Break 3]]] None module_state)
     = Inr 100
   \<and> break_loop (snd (verify_new_function literal_ops ''f'' [] [Loop 1 [Loop 2 [Break 3]]] None module_state)) 3
     = Some (Some (Loop_ref 1))"
  by (simp add: verifier_defs vm_defs example_defs)

section \<open>Return-path coverage\<close>

lemma Function_verifySelf_raises_iff:
  "Function_verifySelf fn st = (Inl (SemanticError ''All code paths must return''), st)
     \<longleftrightarrow> \<not> list_ex isinstance_Return (fn_instructions fn) \<and> return_type (fn_type fn) \<noteq> None"
  by (simp add: Function_verifySelf_def vm_defs)

lemma single_armed_branch_raises:
  "fst (verify_new_function literal_ops ''f'' []
          [Branch 1 bool_literal [Return 2 (Some int_literal)] []]
          (Some (Reference 12 ''Int'')) module_state)
     = Inl (SemanticError ''All code paths must return'')"
  by (simp add: verifier_defs vm_defs example_defs)

text \<open>
  C1. The claim: a function with a declared return type whose body is a single \<open>Branch\<close> with
  a \<open>Return\<close> in each arm verifies successfully. \<open>Function.verifySelf\<close> of lekvar.py looks
  for a \<open>Return\<close> among the elements of \<open>self.instructions\<close> only
  (\<open>Function_verifySelf_raises_iff\<close>), so this function is rejected with
  "All code paths must return", as the one with a single-armed \<open>Branch\<close> is
  (\<open>single_armed_branch_raises\<close>).
\<close>

theorem two_armed_branch_raises:
  "fst (verify_new_function literal_ops ''f'' []
          [Branch 1 bool_literal [Return 2 (Some int_literal)] [Return 3 (Some int_literal)]]
          (Some (Reference 12 ''Int'')) module_state)
     = Inl (SemanticError ''All code paths must return'')"
  by (simp add: verifier_defs vm_defs example_defs)

section \<open>Overload resolution\<close>
















section \<open>Compatibility of function types\<close>

lemma arguments_compatible_zip:
  "length xs = length ys \<Longrightarrow> arguments_compatible cc (zip xs ys) = list_all2 cc xs ys"
  by (induction xs ys rule: list_induct2) auto

lemma function_FunctionType_checkCompatibility_returns:
  "function_FunctionType_checkCompatibility cc self other = Inr b \<Longrightarrow>
   b = direction_accepts cc self other"
  by (auto simp: function_FunctionType_checkCompatibility_def direction_accepts_def
        arguments_compatible_zip list_all2_lengthD
        split: if_splits option.splits)

lemma function_FunctionType_checkCompatibility_total:
  "sig_return_type self \<noteq> None \<or> sig_return_type other = None \<Longrightarrow>
   function_FunctionType_checkCompatibility cc self other = Inr (direction_accepts cc self other)"
  by (auto simp: function_FunctionType_checkCompatibility_def direction_accepts_def
        arguments_compatible_zip list_all2_lengthD
        split: if_splits option.splits)

lemma util_checkCompatibility_returns:
  "util_checkCompatibility cc type1 type2 = Inr b \<Longrightarrow>
   b = (direction_accepts cc type1 type2 \<or> direction_accepts cc type2 type1)"
  by (auto simp: util_checkCompatibility_def split: sum.splits bool.splits
       dest: function_FunctionType_checkCompatibility_returns)

text \<open>
  The same check in lekvar.py does not look at return types at all, and leaves its loop at the
  first argument pair that is not compatible in the forward direction, with the result of the
  reversed check of that pair: the remaining pairs are not examined.
\<close>

lemma lekvar_FunctionType_checkCompatibility_ignores_return_type:
  "FunctionType_checkCompatibility (self\<lparr>return_type := r1\<rparr>) (other\<lparr>return_type := r2\<rparr>)
     = FunctionType_checkCompatibility self other"
  by (simp add: FunctionType_checkCompatibility_def)

lemma DependentType_checkCompatibility_step:
  "DependentType_checkCompatibility d other st =
     (case dependent_objs st d of
        None \<Rightarrow> (Inl (InternalError ''no such object''), st)
      | Some dt \<Rightarrow>
          (case target dt of
             Some (Reference i c) \<Rightarrow> Class_checkCompatibility c other st
           | Some (DependentType d') \<Rightarrow>
               DependentType_checkCompatibility_depth (recursion_limit - 1) d' other st
           | None \<Rightarrow>
               (Inr True,
                if other \<in> set (compatibles dt) then st
                else st\<lparr>dependent_objs :=
                          (dependent_objs st)(d \<mapsto> dt\<lparr>compatibles := compatibles dt @ [other]\<rparr>)\<rparr>)))"
proof -
  have n: "recursion_limit = Suc (recursion_limit - 1)" by (simp add: recursion_limit_def)
  show ?thesis unfolding DependentType_checkCompatibility_def
    by (subst n) (simp only: DependentType_checkCompatibility_depth.simps)
qed

lemma lekvar_FunctionType_checkCompatibility_early_return:
  "fst (FunctionType_checkCompatibility
          \<lparr>ft_arguments = [Some (Reference 1 ''Int''), Some (Reference 2 ''Int'')],
           return_type = None, ft_verified = False\<rparr>
          \<lparr>ft_arguments = [Some (DependentType 0), Some (Reference 3 ''String'')],
           return_type = None, ft_verified = False\<rparr>
          ((module_state :: literal State)\<lparr>dependent_objs := [0 \<mapsto> \<lparr>compatibles = [], target = None\<rparr>]\<rparr>))
     = Inr True"
  by (simp add: FunctionType_checkCompatibility_def arg_checkCompatibility_def
        ty_checkCompatibility_def Class_checkCompatibility_def
        DependentType_checkCompatibility_step vm_defs example_defs)

text \<open>
  C4. The claim: two function types are compatible exactly when the arities agree, the
  arguments are pairwise compatible and, when both return types are present, these are
  compatible. Whenever the check of function.py and util.py returns, it returns this for one of
  the two directions (\<open>util_checkCompatibility_returns\<close>), and a missing return type of
  \<open>other\<close> is a wildcard. But when \<open>self\<close> has no return type and \<open>other\<close> has one, the
  check does not return: with no arguments at all, a function type without return type
  against one with return type \<open>Int\<close> faults on \<open>self.return_type.checkCompatibility\<close>.
\<close>

theorem util_checkCompatibility_faults:
  "util_checkCompatibility (=) \<lparr>sig_arguments = [], sig_return_type = None\<rparr>
      \<lparr>sig_arguments = [], sig_return_type = Some ''Int''\<rparr>
   = Inl (AttributeError ''checkCompatibility'')"
  by (simp add: util_checkCompatibility_def function_FunctionType_checkCompatibility_def)


section \<open>Verification preserves the objects\<close>

lemma preserved_refl: "preserved st st"
  by (simp add: preserved_def)

lemma preserved_trans: "preserved a b \<Longrightarrow> preserved b c \<Longrightarrow> preserved a c"
  unfolding preserved_def by (metis (no_types, lifting))

lemma preserved_heap_eq:
  assumes "function_objs b' = function_objs b" and "dependent_objs b' = dependent_objs b"
  shows "preserved a b' = preserved a b"
  using assms by (simp add: preserved_def)

lemma preserved_heap_eq_left:
  assumes "function_objs a' = function_objs a" and "dependent_objs a' = dependent_objs a"
  shows "preserved a' b = preserved a b"
  using assms by (simp add: preserved_def)

lemma preserving_vreturn: "preserving (vreturn x)"
  by (simp add: preserving_def vreturn_def preserved_refl)

lemma preserving_vraise: "preserving (vraise e)"
  by (simp add: preserving_def vraise_def preserved_refl)

lemma preserving_vbind:
  assumes "preserving m" and "\<And>x. preserving (k x)"
  shows "preserving (vbind m k)"
  unfolding preserving_def
proof
  fix st
  obtain r st1 where m: "m st = (r, st1)" by (cases "m st")
  have p1: "preserved st st1" using assms(1) m by (auto simp: preserving_def dest: spec[of _ st])
  show "preserved st (snd (vbind m k st))"
  proof (cases r)
    case (Inl e)
    then show ?thesis using m p1 by (simp add: vbind_def)
  next
    case (Inr x)
    have "preserved st1 (snd (k x st1))" using assms(2)[of x] by (simp add: preserving_def)
    then show ?thesis using m p1 Inr by (auto simp: vbind_def intro: preserved_trans)
  qed
qed

lemma preserving_vthen:
  assumes "preserving m" and "preserving k"
  shows "preserving (vthen m k)"
  unfolding vthen_def using assms by (intro preserving_vbind) simp_all

lemma preservingI:
  assumes "\<And>st. preserved st (snd (m st))"
  shows "preserving m"
  using assms by (simp add: preserving_def)

lemma preservingD: "preserving m \<Longrightarrow> preserved st (snd (m st))"
  by (simp add: preserving_def)

lemma preserving_softScoped:
  fixes body :: "('v, 'a) vm"
  assumes "preserving body"
  shows "preserving (softScoped s body)"
proof (rule preservingI)
  fix st :: "'v State"
  show "preserved st (snd (softScoped s body st))"
  proof (cases "soft_scope_stack st")
    case None
    then show ?thesis by (simp add: softScoped_def preserved_refl)
  next
    case (Some stack)
    define st1 where "st1 = st\<lparr>soft_scope_stack := Some (stack @ [s])\<rparr>"
    obtain r st2 where b: "body st1 = (r, st2)" by (cases "body st1")
    have "preserved st1 st2" using preservingD[OF assms, of st1] b by simp
    then have p: "preserved st st2"
      by (simp add: st1_def preserved_def)
    then have p': "\<And>x. preserved st (st2\<lparr>soft_scope_stack := x\<rparr>)"
      by (simp add: preserved_def)
    show ?thesis using Some b p p'
      by (auto simp: softScoped_def st1_def split: sum.splits option.splits)
  qed
qed

lemma preserving_scoped:
  fixes body :: "('v, 'a) vm"
  assumes "preserving body"
  shows "preserving (scoped sc body)"
proof (rule preservingI)
  fix st :: "'v State"
  define st1 where "st1 = st\<lparr>scope := Some sc, soft_scope_stack := Some []\<rparr>"
  obtain r st2 where b: "body st1 = (r, st2)" by (cases "body st1")
  have "preserved st1 st2" using preservingD[OF assms, of st1] b by simp
  then have p: "preserved st st2"
    by (simp add: st1_def preserved_def)
  then have p': "\<And>x y. preserved st (st2\<lparr>scope := x, soft_scope_stack := y\<rparr>)"
    by (simp add: preserved_def)
  show "preserved st (snd (scoped sc body st))"
    using b p p' by (auto simp: scoped_def Let_def st1_def split: sum.splits)
qed

lemma preserving_Class_checkCompatibility: "preserving (Class_checkCompatibility c other)"
  by (rule preservingI)
     (auto simp: Class_checkCompatibility_def vm_defs preserved_refl split: option.splits ty.splits)

lemma preserving_DependentType_checkCompatibility_depth:
  "preserving (DependentType_checkCompatibility_depth depth d other :: ('v, bool) vm)"
proof (induction depth arbitrary: d)
  case 0
  show ?case by (simp add: preserving_vraise)
next
  case (Suc depth)
  show ?case
  proof (rule preservingI)
    fix st :: "'v State"
    show "preserved st (snd (DependentType_checkCompatibility_depth (Suc depth) d other st))"
    proof (cases "dependent_objs st d")
      case None
      then show ?thesis by (simp add: preserved_refl)
    next
      case (Some dt)
      show ?thesis
      proof (cases "target dt")
        case None
        then show ?thesis using Some by (auto simp: preserved_def)
      next
        case t: (Some t)
        show ?thesis
        proof (cases t)
          case (Reference i c)
          then show ?thesis
            using Some t preservingD[OF preserving_Class_checkCompatibility, of st c other]
            by simp
        next
          case (DependentType d')
          then show ?thesis
            using Some t preservingD[OF Suc, of st d'] by simp
        qed
      qed
    qed
  qed
qed

lemma preserving_ty_checkCompatibility: "preserving (ty_checkCompatibility t other)"
  by (cases t)
     (simp_all add: ty_checkCompatibility_def DependentType_checkCompatibility_def
        preserving_Class_checkCompatibility preserving_DependentType_checkCompatibility_depth)

lemma preserving_arg_checkCompatibility: "preserving (arg_checkCompatibility a other)"
  by (cases a)
     (simp_all add: arg_checkCompatibility_def preserving_vraise preserving_ty_checkCompatibility)

lemma preserving_Break_verify: "preserving (Break_verify i)"
  by (rule preservingI)
     (auto simp: Break_verify_def getSoftScope_def Let_def preserved_def split: sum.splits option.splits)

lemma preserving_inside_function: "preserving (inside_function i)"
  by (rule preservingI)
     (auto simp: inside_function_def set_bound_function_def preserved_def
        split: option.splits scope_obj.splits)

lemma preserving_Return_check: "preserving (Return_check ops i v)"
proof (rule preservingI)
  fix st :: "'a State"
  show "preserved st (snd (Return_check ops i v st))"
  proof (cases "\<exists>f fn. scope st = Some (Function_ref f) \<and> function_objs st f = Some fn")
    case False
    then show ?thesis
      by (auto simp: Return_check_def preserved_refl split: option.splits scope_obj.splits)
  next
    case True
    then obtain f fn where f: "scope st = Some (Function_ref f)" "function_objs st f = Some fn"
      by blast
    define st1 where "st1 = set_bound_function i (Function_ref f) st"
    have h: "function_objs st1 = function_objs st" "dependent_objs st1 = dependent_objs st"
      by (simp_all add: st1_def set_bound_function_def)
    show ?thesis
    proof (cases "return_type (fn_type fn)")
      case None
      then show ?thesis using f
        by (auto simp: Return_check_def Let_def set_bound_function_def preserved_def skeleton_def)
    next
      case t: (Some t)
      have "preserved st1 (snd (vthen (ty_checkCompatibility t (resolveType_value ops v)) (vreturn ()) st1))"
        by (intro preservingD preserving_vthen preserving_ty_checkCompatibility preserving_vreturn)
      then have "preserved st (snd (vthen (ty_checkCompatibility t (resolveType_value ops v)) (vreturn ()) st1))"
        using h by (simp add: preserved_def)
      then show ?thesis using f t
        by (simp add: Return_check_def Let_def st1_def)
    qed
  qed
qed

lemma preserving_Return_verify:
  assumes "values_preserve ops"
  shows "preserving (Return_verify ops i val)"
proof (cases val)
  case None
  then show ?thesis by (simp add: Return_verify_def preserving_vraise)
next
  case (Some v)
  have "preserving (verify_value ops v)" using assms by (simp add: values_preserve_def)
  then show ?thesis using Some
    by (simp add: Return_verify_def preserving_vthen preserving_Return_check)
qed

lemma preserving_verify_instr:
  assumes "values_preserve ops"
  shows "preserving (verify_instr ops instruction)"
    and "preserving (verify_instrs ops instructions)"
  using assms
proof (induction ops instruction and ops instructions rule: verify_instr_verify_instrs.induct)
  case (1 ops i val)
  then show ?case by (simp add: preserving_Return_verify)
next
  case (2 ops i condition true_instructions false_instructions)
  then show ?case
    by (simp add: preserving_vthen preserving_softScoped preserving_inside_function values_preserve_def)
next
  case (3 ops i instructions)
  then show ?case
    by (simp add: preserving_vthen preserving_softScoped preserving_inside_function)
next
  case (4 ops i)
  then show ?case by (simp add: preserving_Break_verify)
next
  case (5 ops i contents)
  then show ?case by (simp add: preserving_vreturn)
next
  case (6 ops v)
  then show ?case by (simp add: values_preserve_def)
next
  case (7 ops)
  then show ?case by (simp add: preserving_vreturn)
next
  case (8 ops instruction rest)
  then show ?case by (simp add: preserving_vthen)
qed


section \<open>Constructors\<close>

lemma Constructor_verifySelf_iff:
  "Constructor_verifySelf instrs st =
     (if list_ex isinstance_Return instrs
      then (Inl (SyntaxError ''Returns within constructors are invalid''), st)
      else (Inr (), st))"
  by (induction instrs) (auto simp: vm_defs)

lemma init_arguments_returns:
  "\<exists>r st'. init_arguments args st = (Inr r, st') \<and> function_objs st' = function_objs st"
proof (induction args arbitrary: st)
  case Nil
  then show ?case by (auto simp: vm_defs)
next
  case (Cons a args)
  show ?case
  proof (cases "v_type a")
    case None
    define st1 where "st1 = snd (DependentType_init [] st)"
    from Cons[of st1] obtain r st' where r: "init_arguments args st1 = (Inr r, st')"
       "function_objs st' = function_objs st1" by blast
    have d: "DependentType_init [] st = (Inr (next_id st), st1)" "function_objs st1 = function_objs st"
      by (simp_all add: st1_def DependentType_init_def alloc_def vm_defs)
    show ?thesis using None r d by (cases r) (auto simp: vm_defs)
  next
    case (Some t)
    from Cons[of st] obtain r st' where r: "init_arguments args st = (Inr r, st')"
       "function_objs st' = function_objs st" by blast
    show ?thesis using Some r by (cases r) (auto simp: vm_defs)
  qed
qed

lemma Function_init_returns:
  "\<exists>k st' fn. Function_init name args instrs ret st = (Inr k, st') \<and>
      function_objs st' = (function_objs st)(k \<mapsto> fn) \<and> fn_instructions fn = instrs \<and>
      return_type (fn_type fn) = ret"
proof -
  obtain r st1 where r: "init_arguments args st = (Inr r, st1)" "function_objs st1 = function_objs st"
    using init_arguments_returns by blast
  then show ?thesis
    by (cases r) (auto simp: Function_init_def vm_defs alloc_def intro!: exI)
qed

lemma Constructor_init_declared_return_type:
  assumes "function_objs st f = Some fn" and "return_type (fn_type fn) \<noteq> None"
  shows "fst (Constructor_init f c st) = Inl (TypeError ''Constructors must return nothing'')"
proof -
  obtain k st' gn where "Function_init (fn_name fn) (fn_arguments fn) (fn_instructions fn)
      (return_type (fn_type fn)) st = (Inr k, st')" "function_objs st' = (function_objs st)(k \<mapsto> gn)"
    using Function_init_returns by blast
  with assms show ?thesis
    by (simp add: Constructor_init_def vm_defs Let_def)
qed

lemma preserving_FunctionType_verify: "preserving (FunctionType_verify f)"
proof (rule preservingI)
  fix st :: "'a State"
  show "preserved st (snd (FunctionType_verify f st))"
  proof (cases "function_objs st f")
    case None
    then show ?thesis by (simp add: FunctionType_verify_def preserved_refl)
  next
    case (Some fn)
    define st1 where "st1 = st\<lparr>function_objs := (function_objs st)
                         (f \<mapsto> fn\<lparr>fn_type := (fn_type fn)\<lparr>ft_verified := True\<rparr>\<rparr>)\<rparr>"
    have 1: "preserved st st1"
      using Some by (auto simp: st1_def preserved_def skeleton_def)
    have "preserving (verify_types ts :: ('a, unit) vm)" for ts
      by (induction ts)
         (simp_all add: preserving_vreturn preserving_vraise preserving_vthen ty_verify_def
            split: option.splits)
    then have "preserving (scoped (FunctionType_ref f)
                (vthen (verify_types (ft_arguments (fn_type fn)))
                   (case return_type (fn_type fn) of
                      None \<Rightarrow> vreturn ()
                    | Some t \<Rightarrow> ty_verify t)) :: ('a, unit) vm)"
      by (intro preserving_scoped preserving_vthen)
         (auto simp: ty_verify_def preserving_vreturn split: option.splits)
    from preservingD[OF this, of st1] 1 show ?thesis
      using Some by (auto simp: FunctionType_verify_def Let_def st1_def preserved_refl intro: preserved_trans)
  qed
qed

lemma vthen_assoc: "vthen a (vthen b c) = vthen (vthen a b) c"
  by (auto simp: vm_defs fun_eq_iff split: prod.splits sum.splits)

lemma Constructor_verify_raises:
  assumes vp: "values_preserve ops"
    and k: "function_objs st k = Some fn" "fn_constructor fn" "\<not> fn_verified fn"
    and r: "list_ex isinstance_Return (fn_instructions fn)"
  shows "Function_verify ops k st =
           (case vthen (FunctionType_verify k) (verify_instrs ops (fn_instructions fn))
                   (st\<lparr>function_objs := (function_objs st)(k \<mapsto> fn\<lparr>fn_verified := True\<rparr>),
                       scope := Some (Function_ref k), soft_scope_stack := Some []\<rparr>) of
              (Inl e, st') \<Rightarrow> (Inl e, st')
            | (Inr u, st') \<Rightarrow> (Inl (SyntaxError ''Returns within constructors are invalid''), st'))"
proof -
  define entered where "entered = st\<lparr>function_objs := (function_objs st)(k \<mapsto> fn\<lparr>fn_verified := True\<rparr>),
                       scope := Some (Function_ref k), soft_scope_stack := Some []\<rparr>"
  define prelude where "prelude = vthen (FunctionType_verify k) (verify_instrs ops (fn_instructions fn))"
  obtain res st2 where p: "prelude entered = (res, st2)" by (cases "prelude entered")
  have "preserving prelude"
    unfolding prelude_def
    by (intro preserving_vthen preserving_FunctionType_verify preserving_verify_instr(2) vp)
  then have "preserved entered st2" using p by (auto dest: preservingD[of _ entered])
  moreover have "function_objs entered k = Some (fn\<lparr>fn_verified := True\<rparr>)"
    by (simp add: entered_def)
  ultimately obtain fn2 where fn2: "function_objs st2 k = Some fn2"
      "skeleton fn2 = skeleton (fn\<lparr>fn_verified := True\<rparr>)"
    unfolding preserved_def by blast
  from fn2(2) have s: "fn_constructor fn2 = fn_constructor fn" "fn_instructions fn2 = fn_instructions fn"
    by (auto simp: skeleton_def dest: arg_cong[of _ _ fn_constructor] arg_cong[of _ _ fn_instructions])
  have vs: "verifySelf k st2 = (Inl (SyntaxError ''Returns within constructors are invalid''), st2)"
    using fn2 s k r by (simp add: verifySelf_def Constructor_verifySelf_iff)
  have "Function_verify ops k st = scoped (Function_ref k) (vthen prelude (verifySelf k))
           (st\<lparr>function_objs := (function_objs st)(k \<mapsto> fn\<lparr>fn_verified := True\<rparr>)\<rparr>)"
    using k by (simp add: Function_verify_def Let_def prelude_def vthen_assoc)
  also have "\<dots> = (case prelude entered of
              (Inl e, st') \<Rightarrow> (Inl e, st')
            | (Inr u, st') \<Rightarrow> (Inl (SyntaxError ''Returns within constructors are invalid''), st'))"
    using p vs by (cases res) (simp_all add: scoped_def Let_def entered_def vm_defs)
  finally show ?thesis by (simp add: prelude_def entered_def)
qed

lemma values_preserve_literal_ops: "values_preserve literal_ops"
  by (simp add: values_preserve_def literal_ops_def preserving_vreturn)


lemma Function_verify_verified:
  "function_objs st k = Some fn \<Longrightarrow> fn_verified fn \<Longrightarrow> Function_verify ops k st = (Inr (), st)"
  by (simp add: Function_verify_def)

lemmas constructor_defs = verify_new_constructor_def Constructor_init_def Let_def

text \<open>
  What the statement below leaves out. \<open>Constructor.verifySelf\<close> looks at the elements of
  \<open>self.instructions\<close> only, so a constructor whose \<open>Return\<close> sits inside a \<open>Loop\<close> verifies.
  \<open>Function.verify\<close> sets \<open>verified\<close> before anything else, so a second verification of a
  constructor returns at once (\<open>Function_verify_verified\<close>). And \<open>Constructor.__init__\<close>
  assigns the class to the return type of the function it was built from: the constructor
  (object 101) has no return type, the wrapped function (object 100) has the class.
\<close>

lemma constructor_nested_Return_verifies:
  "fst (verify_new_constructor literal_ops [] [Loop 1 [Return 2 (Some int_literal)]] None
          (Reference 20 ''Pair'') module_state)
     = Inr 101"
  by (simp add: constructor_defs verifier_defs vm_defs example_defs)

lemma Constructor_init_assigns_to_wrapped_function:
  "fst (vbind (Function_init ''0'' [] [] None) (\<lambda>f. Constructor_init f (Reference 20 ''Pair''))
          (module_state :: literal State)) = Inr 101
   \<and> map_option (return_type \<circ> fn_type)
        (function_objs (snd (vbind (Function_init ''0'' [] [] None)
             (\<lambda>f. Constructor_init f (Reference 20 ''Pair'')) (module_state :: literal State))) 101)
       = Some None
   \<and> map_option (return_type \<circ> fn_type)
        (function_objs (snd (vbind (Function_init ''0'' [] [] None)
             (\<lambda>f. Constructor_init f (Reference 20 ''Pair'')) (module_state :: literal State))) 100)
       = Some (Some (Reference 20 ''Pair''))"
  by (simp add: constructor_defs verifier_defs vm_defs example_defs)

text \<open>
  C7, as the code has it. (1) The first verification of a constructor that has a \<open>Return\<close>
  among the elements of its instruction list never succeeds: an error of the verification of
  its signature or instructions propagates, and otherwise \<open>Constructor.verifySelf\<close> raises
  \<open>SyntaxError\<close>. Values are a parameter; \<open>values_preserve\<close> asks that verifying one leaves
  the function objects in place (their return types and \<open>verified\<close> flags apart), as every
  \<open>verify\<close> of lekvar.py does. (2) Building a constructor from a function with a declared
  return type raises \<open>TypeError\<close>.
\<close>

theorem Constructor_rules:
  "(values_preserve ops \<and> function_objs st k = Some fn \<and> fn_constructor fn \<and> \<not> fn_verified fn \<and>
    list_ex isinstance_Return (fn_instructions fn) \<longrightarrow>
      Function_verify ops k st =
        (case vthen (FunctionType_verify k) (verify_instrs ops (fn_instructions fn))
                (st\<lparr>function_objs := (function_objs st)(k \<mapsto> fn\<lparr>fn_verified := True\<rparr>),
                    scope := Some (Function_ref k), soft_scope_stack := Some []\<rparr>) of
           (Inl e, st') \<Rightarrow> (Inl e, st')
         | (Inr u, st') \<Rightarrow> (Inl (SyntaxError ''Returns within constructors are invalid''), st')))
   \<and> (function_objs st f = Some gn \<and> return_type (fn_type gn) \<noteq> None \<longrightarrow>
        fst (Constructor_init f c st) = Inl (TypeError ''Constructors must return nothing''))"
  using Constructor_verify_raises[of ops st k fn]
    Constructor_init_declared_return_type[of st f gn c]
  by blast

text \<open>
  C7 as stated fails on the kind of the error: a constructor whose body is a single
  \<open>Return\<close> is rejected with \<open>SyntaxError\<close>, not with \<open>SemanticError\<close>.
\<close>

theorem constructor_Return_raises_SyntaxError:
  "fst (verify_new_constructor literal_ops [] [Return 1 (Some int_literal)] None
          (Reference 20 ''Pair'') module_state)
     = Inl (SyntaxError ''Returns within constructors are invalid'')"
  by (simp add: constructor_defs verifier_defs vm_defs example_defs)

theorem Constructor_rules_witness:
  "values_preserve literal_ops
   \<and> (case vbind (Function_init ''0'' [] [Return 1 (Some int_literal)] None)
              (\<lambda>f. Constructor_init f (Reference 20 ''Pair'')) (module_state :: literal State) of
         (Inr k, st) \<Rightarrow>
           (\<exists>fn. function_objs st k = Some fn \<and> fn_constructor fn \<and> \<not> fn_verified fn \<and>
                 list_ex isinstance_Return (fn_instructions fn))
           \<and> fst (Function_verify literal_ops k st)
                = Inl (SyntaxError ''Returns within constructors are invalid'')
       | (Inl e, st) \<Rightarrow> False)
   \<and> (case Function_init ''0'' [] [] (Some (Reference 12 ''Int'')) (module_state :: literal State) of
         (Inr f, st) \<Rightarrow>
           (\<exists>gn. function_objs st f = Some gn \<and> return_type (fn_type gn) \<noteq> None)
           \<and> fst (Constructor_init f (Reference 20 ''Pair'') st)
                = Inl (TypeError ''Constructors must return nothing'')
       | (Inl e, st) \<Rightarrow> False)"
proof (intro conjI)
  show vp: "values_preserve literal_ops" by (rule values_preserve_literal_ops)
  show "case vbind (Function_init ''0'' [] [Return 1 (Some int_literal)] None)
              (\<lambda>f. Constructor_init f (Reference 20 ''Pair'')) (module_state :: literal State) of
         (Inr k, st) \<Rightarrow>
           (\<exists>fn. function_objs st k = Some fn \<and> fn_constructor fn \<and> \<not> fn_verified fn \<and>
                 list_ex isinstance_Return (fn_instructions fn))
           \<and> fst (Function_verify literal_ops k st)
                = Inl (SyntaxError ''Returns within constructors are invalid'')
       | (Inl e, st) \<Rightarrow> False"
  proof -
    obtain k st where run: "vbind (Function_init ''0'' [] [Return 1 (Some int_literal)] None)
              (\<lambda>f. Constructor_init f (Reference 20 ''Pair'')) (module_state :: literal State) = (Inr k, st)"
      by (simp add: constructor_defs verifier_defs vm_defs example_defs)
    then obtain fn where fn: "function_objs st k = Some fn" "fn_constructor fn" "\<not> fn_verified fn"
        "list_ex isinstance_Return (fn_instructions fn)"
      by (auto simp add: constructor_defs verifier_defs vm_defs example_defs)
    have "fst (vthen (FunctionType_verify k) (verify_instrs literal_ops (fn_instructions fn))
                (st\<lparr>function_objs := (function_objs st)(k \<mapsto> fn\<lparr>fn_verified := True\<rparr>),
                    scope := Some (Function_ref k), soft_scope_stack := Some []\<rparr>)) = Inr ()"
      using run fn(1)
      by (auto simp add: constructor_defs verifier_defs vm_defs example_defs)
    then have "fst (Function_verify literal_ops k st) = Inl (SyntaxError ''Returns within constructors are invalid'')"
      using Constructor_rules[of literal_ops st k fn, THEN conjunct1] vp fn
      by (auto split: prod.splits sum.splits)
    with fn run show ?thesis by auto
  qed
  show "case Function_init ''0'' [] [] (Some (Reference 12 ''Int'')) (module_state :: literal State) of
         (Inr f, st) \<Rightarrow>
           (\<exists>gn. function_objs st f = Some gn \<and> return_type (fn_type gn) \<noteq> None)
           \<and> fst (Constructor_init f (Reference 20 ''Pair'') st)
                = Inl (TypeError ''Constructors must return nothing'')
       | (Inl e, st) \<Rightarrow> False"
  proof -
    obtain f st where run: "Function_init ''0'' [] [] (Some (Reference 12 ''Int'')) (module_state :: literal State) = (Inr f, st)"
      by (simp add: verifier_defs vm_defs example_defs)
    then obtain gn where gn: "function_objs st f = Some gn" "return_type (fn_type gn) \<noteq> None"
      by (auto simp add: verifier_defs vm_defs example_defs)
    from Constructor_rules[THEN conjunct2, of st f gn "Reference 20 ''Pair''"] gn run
    show ?thesis by auto
  qed
qed

section \<open>Specialization of dependent functions\<close>














lemma fresh_below: "fresh st \<Longrightarrow> dependent_objs st d \<noteq> None \<Longrightarrow> d < next_id st"
  by (auto simp: fresh_def not_le[symmetric])

lemma fresh_below_function: "fresh st \<Longrightarrow> function_objs st f \<noteq> None \<Longrightarrow> f < next_id st"
  by (auto simp: fresh_def not_le[symmetric])
















text \<open>
  The premises of the statement below are what \<open>Function.__init__\<close> establishes: in a fresh
  store, from arguments that are untyped or typed with references or with \<open>DependentType\<close>
  objects of the store, it makes an established function in a fresh store, which is dependent
  exactly when some argument had no type.
\<close>

lemma init_arguments_established:
  assumes "fresh st"
    and "list_all (\<lambda>a. case v_type a of Some (DependentType d) \<Rightarrow> dependent_objs st d \<noteq> None
                        | _ \<Rightarrow> True) args"
  shows "\<exists>args' st'. init_arguments args st = (Inr (args', list_ex (\<lambda>a. v_type a = None) args), st') \<and>
           function_objs st' = function_objs st \<and> fresh st' \<and> next_id st \<le> next_id st' \<and>
           (\<forall>d<next_id st. dependent_objs st' d = dependent_objs st d) \<and>
           list_all (\<lambda>a. case v_type a of None \<Rightarrow> False | Some (Reference i c) \<Rightarrow> True
                        | Some (DependentType d) \<Rightarrow> dependent_objs st' d \<noteq> None) args'"
  using assms
proof (induction args arbitrary: st)
  case Nil
  then show ?case by (simp add: vm_defs)
next
  case (Cons a args)
  have tail: "list_all (\<lambda>a. case v_type a of Some (DependentType d) \<Rightarrow> dependent_objs st d \<noteq> None
                        | _ \<Rightarrow> True) args"
    using Cons.prems(2) by simp
  show ?case
  proof (cases "v_type a")
    case None
    define st1 where "st1 = st\<lparr>next_id := Suc (next_id st),
        dependent_objs := (dependent_objs st)(next_id st \<mapsto> \<lparr>compatibles = [], target = None\<rparr>)\<rparr>"
    have d: "DependentType_init [] st = (Inr (next_id st), st1)"
      by (simp add: DependentType_init_def alloc_def vm_defs st1_def)
    have f1: "fresh st1" using Cons.prems(1) by (auto simp: fresh_def st1_def)
    have t1: "list_all (\<lambda>a. case v_type a of Some (DependentType d) \<Rightarrow> dependent_objs st1 d \<noteq> None
                        | _ \<Rightarrow> True) args"
      using tail by (auto simp: list_all_iff st1_def split: option.splits ty.splits)
    from Cons.IH[OF f1 t1] obtain args' st' where
      ih: "init_arguments args st1 = (Inr (args', list_ex (\<lambda>a. v_type a = None) args), st')"
        "function_objs st' = function_objs st1" "fresh st'" "next_id st1 \<le> next_id st'"
        "\<forall>d<next_id st1. dependent_objs st' d = dependent_objs st1 d"
        "list_all (\<lambda>a. case v_type a of None \<Rightarrow> False | Some (Reference i c) \<Rightarrow> True
                        | Some (DependentType d) \<Rightarrow> dependent_objs st' d \<noteq> None) args'"
      by blast
    have n1: "next_id st1 = Suc (next_id st)" by (simp add: st1_def)
    have new: "dependent_objs st' (next_id st) \<noteq> None"
      using ih(5) n1 by (simp add: st1_def)
    have run: "init_arguments (a # args) st =
        (Inr (a\<lparr>v_type := Some (DependentType (next_id st))\<rparr> # args', True), st')"
      using None d ih(1) by (simp add: vm_defs)
    have old: "\<forall>d<next_id st. dependent_objs st' d = dependent_objs st d"
      using ih(5) n1 by (auto simp: st1_def)
    show ?thesis
      using run None ih(2,3,4,6) n1 new old
      by (intro exI[of _ "a\<lparr>v_type := Some (DependentType (next_id st))\<rparr> # args'"] exI[of _ st'])
         (simp add: st1_def)
  next
    case (Some t)
    from Cons.IH[OF Cons.prems(1) tail] obtain args' st' where
      ih: "init_arguments args st = (Inr (args', list_ex (\<lambda>a. v_type a = None) args), st')"
        "function_objs st' = function_objs st" "fresh st'" "next_id st \<le> next_id st'"
        "\<forall>d<next_id st. dependent_objs st' d = dependent_objs st d"
        "list_all (\<lambda>a. case v_type a of None \<Rightarrow> False | Some (Reference i c) \<Rightarrow> True
                        | Some (DependentType d) \<Rightarrow> dependent_objs st' d \<noteq> None) args'"
      by blast
    have run: "init_arguments (a # args) st = (Inr (a # args', list_ex (\<lambda>a. v_type a = None) args), st')"
      using Some ih(1) by (simp add: vm_defs)
    have ha: "case v_type a of None \<Rightarrow> False | Some (Reference i c) \<Rightarrow> True
                        | Some (DependentType d) \<Rightarrow> dependent_objs st' d \<noteq> None"
    proof (cases t)
      case (Reference i c)
      with Some show ?thesis by simp
    next
      case (DependentType d)
      with Some Cons.prems(2) have e: "dependent_objs st d \<noteq> None" by simp
      then have "d < next_id st" using fresh_below[OF Cons.prems(1)] by blast
      with e ih(5) Some DependentType show ?thesis by simp
    qed
    show ?thesis
      using run Some ih(2,3,4,5,6) ha
      by (intro exI[of _ "a # args'"] exI[of _ st']) simp
  qed
qed

lemma Function_init_established:
  assumes "fresh st"
    and "list_all (\<lambda>a. case v_type a of Some (DependentType d) \<Rightarrow> dependent_objs st d \<noteq> None
                        | _ \<Rightarrow> True) args"
  shows "\<exists>f st' self. Function_init name args instrs ret st = (Inr f, st') \<and>
           function_objs st' f = Some self \<and> established st' self \<and> fresh st' \<and>
           fn_dependent self = list_ex (\<lambda>a. v_type a = None) args"
proof -
  from init_arguments_established[OF assms] obtain args' st1 where
    ia: "init_arguments args st = (Inr (args', list_ex (\<lambda>a. v_type a = None) args), st1)"
      "fresh st1"
      "list_all (\<lambda>a. case v_type a of None \<Rightarrow> False | Some (Reference i c) \<Rightarrow> True
                        | Some (DependentType d) \<Rightarrow> dependent_objs st1 d \<noteq> None) args'"
    by blast
  define self where "self = \<lparr>fn_name = name, fn_arguments = args', fn_instructions = instrs,
             fn_type = \<lparr>ft_arguments = map v_type args', return_type = ret, ft_verified = False\<rparr>,
             fn_dependent = list_ex (\<lambda>a. v_type a = None) args, fn_verified = False,
             fn_static = False, fn_constructor = False\<rparr>"
  define st' where "st' = st1\<lparr>next_id := Suc (next_id st1),
      function_objs := (function_objs st1)(next_id st1 \<mapsto> self)\<rparr>"
  have run: "Function_init name args instrs ret st = (Inr (next_id st1), st')"
    using ia(1) by (simp add: Function_init_def vm_defs alloc_def st'_def self_def)
  have "fresh st'" using ia(2) by (auto simp: fresh_def st'_def)
  moreover have "dependent_objs st' = dependent_objs st1" by (simp add: st'_def)
  then have "established st' self"
    using ia(3)
    by (auto simp: established_def self_def list_all_iff split: option.splits ty.splits)
  moreover have "function_objs st' (next_id st1) = Some self" by (simp add: st'_def)
  moreover have "fn_dependent self = list_ex (\<lambda>a. v_type a = None) args" by (simp add: self_def)
  ultimately show ?thesis using run by blast
qed


text \<open>The newer \<open>Function.resolveCall\<close> of function.py makes no clone: it answers with the function itself.\<close>

lemma function_Function_resolveCall_returns_self:
  "fst (function_Function_resolveCall compatible resolve_dependencies dependent self st) = Inr g
   \<Longrightarrow> g = self"
  by (auto simp: function_Function_resolveCall_def split: sum.splits if_splits prod.splits)

lemmas clone_defs = resolve_new_function_def dependent_example_def resolve_twice_def
  Function_resolveCall_def Function_copy_def Variable_copy_def ty_copy_def instr_copy_def
  assign_target_def call_type_def FunctionType_checkCompatibility_def
  DependentType_checkCompatibility_step Let_def


text \<open>
  The scenario of the claim: \<open>def f(x) 1 end\<close> is called with an \<open>Int\<close> and then with a
  \<open>String\<close>. The two calls return two different new functions (objects 103 and 105), both
  verified and not dependent, with the argument types \<open>Int\<close> and \<open>String\<close>; their
  \<open>DependentType\<close> objects (102 and 104) have these as targets; and the original (object 101)
  is still dependent, its \<open>DependentType\<close> (object 100) without target.
\<close>

lemma two_calls_two_specializations:
  "fst (vbind dependent_example
          (\<lambda>f. resolve_twice literal_ops f [Some (Reference 3 ''Int'')] [Some (Reference 4 ''String'')])
          module_state)
     = Inr (103, 105)
   \<and> map_option (\<lambda>fn. (fn_dependent fn, fn_verified fn, ft_arguments (fn_type fn)))
        (function_objs (snd (vbind dependent_example
          (\<lambda>f. resolve_twice literal_ops f [Some (Reference 3 ''Int'')] [Some (Reference 4 ''String'')])
          module_state)) 103)
       = Some (False, True, [Some (Reference 3 ''Int'')])
   \<and> map_option (\<lambda>fn. (fn_dependent fn, fn_verified fn, ft_arguments (fn_type fn)))
        (function_objs (snd (vbind dependent_example
          (\<lambda>f. resolve_twice literal_ops f [Some (Reference 3 ''Int'')] [Some (Reference 4 ''String'')])
          module_state)) 105)
       = Some (False, True, [Some (Reference 4 ''String'')])
   \<and> map_option (\<lambda>fn. (fn_dependent fn, ft_arguments (fn_type fn)))
        (function_objs (snd (vbind dependent_example
          (\<lambda>f. resolve_twice literal_ops f [Some (Reference 3 ''Int'')] [Some (Reference 4 ''String'')])
          module_state)) 101)
       = Some (True, [Some (DependentType 100)])
   \<and> map (\<lambda>d. map_option target (dependent_objs (snd (vbind dependent_example
          (\<lambda>f. resolve_twice literal_ops f [Some (Reference 3 ''Int'')] [Some (Reference 4 ''String'')])
          module_state)) d)) [100, 102, 104]
       = [Some None, Some (Some (Reference 3 ''Int'')), Some (Some (Reference 4 ''String''))]"
  by (simp add: clone_defs verifier_defs vm_defs example_defs)


section \<open>Keywords and identifiers in the lexer\<close>

lemma Lexer_init_lexer_at: "Lexer_init s = lexer_at 0 s"
  by (cases s) (simp_all add: Lexer_init_def lexer_next_def lexer_at_def)

lemma length_DIRECT_MAP: "length DIRECT_MAP = 45"
  by (simp add: DIRECT_MAP_def)

lemma DIRECT_MAP_nth:
  "DIRECT_MAP ! 0 = (''+'', addition)"
  "DIRECT_MAP ! 1 = (''-'', subtraction)"
  "DIRECT_MAP ! 2 = (''*'', multiplication)"
  "DIRECT_MAP ! 3 = (''//'', integer_division)"
  "DIRECT_MAP ! 4 = (''/'', division)"
  "DIRECT_MAP ! 5 = (''%'', mod_tok)"
  "DIRECT_MAP ! 6 = (''=='', equality)"
  "DIRECT_MAP ! 7 = (''!='', inequality)"
  "DIRECT_MAP ! 8 = (''<='', smaller_than_or_equal_to)"
  "DIRECT_MAP ! 9 = (''<'', smaller_than)"
  "DIRECT_MAP ! 10 = (''>='', greater_than_or_equal_to)"
  "DIRECT_MAP ! 11 = (''>'', greater_than)"
  "DIRECT_MAP ! 12 = (''!'', logical_negation)"
  "DIRECT_MAP ! 13 = (''&&'', logical_and)"
  "DIRECT_MAP ! 14 = (''||'', logical_or)"
  "DIRECT_MAP ! 15 = (''=>'', function_tok)"
  "DIRECT_MAP ! 16 = (''('', group_start)"
  "DIRECT_MAP ! 17 = ('')'', group_end)"
  "DIRECT_MAP ! 18 = ('':'', typeof)"
  "DIRECT_MAP ! 19 = (''->'', returns)"
  "DIRECT_MAP ! 20 = ('','', comma)"
  "DIRECT_MAP ! 21 = (''='', assign)"
  "DIRECT_MAP ! 22 = (''.'', dot)"
  "DIRECT_MAP ! 23 = (''const'', const_kwd)"
  "DIRECT_MAP ! 24 = (''ref'', ref_kwd)"
  "DIRECT_MAP ! 25 = (''def'', def_kwd)"
  "DIRECT_MAP ! 26 = (''end'', end_kwd)"
  "DIRECT_MAP ! 27 = (''return'', return_kwd)"
  "DIRECT_MAP ! 28 = (''class'', class_kwd)"
  "DIRECT_MAP ! 29 = (''new'', new_kwd)"
  "DIRECT_MAP ! 30 = (''as'', as_kwd)"
  "DIRECT_MAP ! 31 = (''module'', module_kwd)"
  "DIRECT_MAP ! 32 = (''loop'', loop_kwd)"
  "DIRECT_MAP ! 33 = (''while'', while_kwd)"
  "DIRECT_MAP ! 34 = (''for'', for_kwd)"
  "DIRECT_MAP ! 35 = (''in'', in_kwd)"
  "DIRECT_MAP ! 36 = (''break'', break_kwd)"
  "DIRECT_MAP ! 37 = (''self'', self_kwd)"
  "DIRECT_MAP ! 38 = (''elif'', elif_kwd)"
  "DIRECT_MAP ! 39 = (''if'', if_kwd)"
  "DIRECT_MAP ! 40 = (''else'', else_kwd)"
  "DIRECT_MAP ! 41 = (''import'', import_kwd)"
  "DIRECT_MAP ! 42 = (''pragma'', pragma_kwd)"
  "DIRECT_MAP ! 43 = (''true'', true_kwd)"
  "DIRECT_MAP ! 44 = (''false'', false_kwd)"
  by (simp_all add: DIRECT_MAP_def)

text \<open>The outgoing edges of \<open>TREE\<close>, in the order in which the module appends them.\<close>

lemma links_TREE:
  "links TREE =
     [(TREE, in_chars WHITESPACE),
      (newline_node, is_char CHR 0x0A),
      (comment_node, is_char CHR ''#''),
      (format_string_node, is_char CHR 0x22),
      (wysiwyg_node, is_char CHR 0x60),
      (direct_node 0 1, is_char CHR ''+''),
      (direct_node 1 1, is_char CHR ''-''),
      (direct_node 2 1, is_char CHR ''*''),
      (direct_node 3 1, is_char CHR ''/''),
      (direct_node 4 1, is_char CHR ''/''),
      (direct_node 5 1, is_char CHR ''%''),
      (direct_node 6 1, is_char CHR ''=''),
      (direct_node 7 1, is_char CHR ''!''),
      (direct_node 8 1, is_char CHR ''<''),
      (direct_node 9 1, is_char CHR ''<''),
      (direct_node 10 1, is_char CHR ''>''),
      (direct_node 11 1, is_char CHR ''>''),
      (direct_node 12 1, is_char CHR ''!''),
      (direct_node 13 1, is_char CHR ''&''),
      (direct_node 14 1, is_char CHR ''|''),
      (direct_node 15 1, is_char CHR ''=''),
      (direct_node 16 1, is_char CHR ''(''),
      (direct_node 17 1, is_char CHR '')''),
      (direct_node 18 1, is_char CHR '':''),
      (direct_node 19 1, is_char CHR ''-''),
      (direct_node 20 1, is_char CHR '',''),
      (direct_node 21 1, is_char CHR ''=''),
      (direct_node 22 1, is_char CHR ''.''),
      (direct_node 23 1, is_char CHR ''c''),
      (direct_node 24 1, is_char CHR ''r''),
      (direct_node 25 1, is_char CHR ''d''),
      (direct_node 26 1, is_char CHR ''e''),
      (direct_node 27 1, is_char CHR ''r''),
      (direct_node 28 1, is_char CHR ''c''),
      (direct_node 29 1, is_char CHR ''n''),
      (direct_node 30 1, is_char CHR ''a''),
      (direct_node 31 1, is_char CHR ''m''),
      (direct_node 32 1, is_char CHR ''l''),
      (direct_node 33 1, is_char CHR ''w''),
      (direct_node 34 1, is_char CHR ''f''),
      (direct_node 35 1, is_char CHR ''i''),
      (direct_node 36 1, is_char CHR ''b''),
      (direct_node 37 1, is_char CHR ''s''),
      (direct_node 38 1, is_char CHR ''e''),
      (direct_node 39 1, is_char CHR ''i''),
      (direct_node 40 1, is_char CHR ''e''),
      (direct_node 41 1, is_char CHR ''i''),
      (direct_node 42 1, is_char CHR ''p''),
      (direct_node 43 1, is_char CHR ''t''),
      (direct_node 44 1, is_char CHR ''f''),
      (identifier_node, in_chars WORD_CHARACTERS),
      (number_node, in_chars DIGIT_CHARACTERS)]"
  by (simp add: DIRECT_MAP_def upt_rec[of _ "numeral _"] upt_rec[of _ "Suc _"])

lemmas lexer_defs = lex_def lexer_next_def step_def evaluate_def
  is_char_def is_not_char_def in_chars_def WHITESPACE_def WORD_CHARACTERS_def
  DIGIT_CHARACTERS_def WORD_CHARACTERS_AFTER_def live_nodes_def Let_def
  links_TREE length_DIRECT_MAP DIRECT_MAP_nth lex_loop.simps lexer_at_def delimited_def

lemma keyword_const: "delimited rest \<Longrightarrow> keyword_wins ''const'' const_kwd p rest"
  unfolding keyword_wins_def
  by (cases rest) (simp_all add: lexer_defs del: links.simps(1))

lemma keyword_ref: "delimited rest \<Longrightarrow> keyword_wins ''ref'' ref_kwd p rest"
  unfolding keyword_wins_def
  by (cases rest) (simp_all add: lexer_defs del: links.simps(1))

lemma keyword_def: "delimited rest \<Longrightarrow> keyword_wins ''def'' def_kwd p rest"
  unfolding keyword_wins_def
  by (cases rest) (simp_all add: lexer_defs del: links.simps(1))

lemma keyword_end: "delimited rest \<Longrightarrow> keyword_wins ''end'' end_kwd p rest"
  unfolding keyword_wins_def
  by (cases rest) (simp_all add: lexer_defs del: links.simps(1))

lemma keyword_return: "delimited rest \<Longrightarrow> keyword_wins ''return'' return_kwd p rest"
  unfolding keyword_wins_def
  by (cases rest) (simp_all add: lexer_defs del: links.simps(1))

lemma keyword_class: "delimited rest \<Longrightarrow> keyword_wins ''class'' class_kwd p rest"
  unfolding keyword_wins_def
  by (cases rest) (simp_all add: lexer_defs del: links.simps(1))

lemma keyword_new: "delimited rest \<Longrightarrow> keyword_wins ''new'' new_kwd p rest"
  unfolding keyword_wins_def
  by (cases rest) (simp_all add: lexer_defs del: links.simps(1))

lemma keyword_as: "delimited rest \<Longrightarrow> keyword_wins ''as'' as_kwd p rest"
  unfolding keyword_wins_def
  by (cases rest) (simp_all add: lexer_defs del: links.simps(1))

lemma keyword_module: "delimited rest \<Longrightarrow> keyword_wins ''module'' module_kwd p rest"
  unfolding keyword_wins_def
  by (cases rest) (simp_all add: lexer_defs del: links.simps(1))

lemma keyword_loop: "delimited rest \<Longrightarrow> keyword_wins ''loop'' loop_kwd p rest"
  unfolding keyword_wins_def
  by (cases rest) (simp_all add: lexer_defs del: links.simps(1))

lemma keyword_while: "delimited rest \<Longrightarrow> keyword_wins ''while'' while_kwd p rest"
  unfolding keyword_wins_def
  by (cases rest) (simp_all add: lexer_defs del: links.simps(1))

lemma keyword_for: "delimited rest \<Longrightarrow> keyword_wins ''for'' for_kwd p rest"
  unfolding keyword_wins_def
  by (cases rest) (simp_all add: lexer_defs del: links.simps(1))

lemma keyword_in: "delimited rest \<Longrightarrow> keyword_wins ''in'' in_kwd p rest"
  unfolding keyword_wins_def
  by (cases rest) (simp_all add: lexer_defs del: links.simps(1))

lemma keyword_break: "delimited rest \<Longrightarrow> keyword_wins ''break'' break_kwd p rest"
  unfolding keyword_wins_def
  by (cases rest) (simp_all add: lexer_defs del: links.simps(1))

lemma keyword_self: "delimited rest \<Longrightarrow> keyword_wins ''self'' self_kwd p rest"
  unfolding keyword_wins_def
  by (cases rest) (simp_all add: lexer_defs del: links.simps(1))

lemma keyword_elif: "delimited rest \<Longrightarrow> keyword_wins ''elif'' elif_kwd p rest"
  unfolding keyword_wins_def
  by (cases rest) (simp_all add: lexer_defs del: links.simps(1))

lemma keyword_if: "delimited rest \<Longrightarrow> keyword_wins ''if'' if_kwd p rest"
  unfolding keyword_wins_def
  by (cases rest) (simp_all add: lexer_defs del: links.simps(1))

lemma keyword_else: "delimited rest \<Longrightarrow> keyword_wins ''else'' else_kwd p rest"
  unfolding keyword_wins_def
  by (cases rest) (simp_all add: lexer_defs del: links.simps(1))

lemma keyword_import: "delimited rest \<Longrightarrow> keyword_wins ''import'' import_kwd p rest"
  unfolding keyword_wins_def
  by (cases rest) (simp_all add: lexer_defs del: links.simps(1))

lemma keyword_pragma: "delimited rest \<Longrightarrow> keyword_wins ''pragma'' pragma_kwd p rest"
  unfolding keyword_wins_def
  by (cases rest) (simp_all add: lexer_defs del: links.simps(1))

lemma keyword_true: "delimited rest \<Longrightarrow> keyword_wins ''true'' true_kwd p rest"
  unfolding keyword_wins_def
  by (cases rest) (simp_all add: lexer_defs del: links.simps(1))

lemma keyword_false: "delimited rest \<Longrightarrow> keyword_wins ''false'' false_kwd p rest"
  unfolding keyword_wins_def
  by (cases rest) (simp_all add: lexer_defs del: links.simps(1))

lemmas keyword_lemmas =
  keyword_const keyword_ref keyword_def keyword_end keyword_return keyword_class keyword_new keyword_as keyword_module keyword_loop keyword_while keyword_for keyword_in keyword_break keyword_self keyword_elif keyword_if keyword_else keyword_import keyword_pragma keyword_true keyword_false

text \<open>
  C8. For every spelling in the keyword part of \<open>DIRECT_MAP\<close>, read at any position and
  followed by the end of the input or by a character that does not continue a word, lexing
  stops after the spelling with the keyword terminal and the identifier terminal both live,
  and the token emitted has the keyword kind: the chain of the keyword was appended to
  \<open>TREE\<close> before the identifier automaton, the live nodes keep that order, and
  \<open>outputNode\<close> takes the first node that has a token type.
\<close>

theorem keyword_wins_over_identifier:
  "\<forall>(kw, t) \<in> set KEYWORDS. \<forall>p rest. delimited rest \<longrightarrow> keyword_wins kw t p rest"
  by (auto simp: KEYWORDS_def DIRECT_MAP_def intro: keyword_lemmas)

theorem keyword_wins_over_identifier_witness:
  "(''class'', class_kwd) \<in> set KEYWORDS \<and> delimited '' Pair'' \<and> delimited []
   \<and> live_nodes ''class'' = [direct_node 28 5, identifier_end]
   \<and> token_type (direct_node 28 5) = Some class_kwd
   \<and> token_type identifier_end = Some identifier_tok
   \<and> fst (lex (Lexer_init ''class Pair'')) =
        Inr (Some \<lparr>tok_type = class_kwd, tok_start = 0, tok_end = 5, tok_data = ''class''\<rparr>)
   \<and> fst (lex (Lexer_init ''class'')) =
        Inr (Some \<lparr>tok_type = class_kwd, tok_start = 0, tok_end = 5, tok_data = ''class''\<rparr>)"
proof -
  have k: "(''class'', class_kwd) \<in> set KEYWORDS"
    by (simp add: KEYWORDS_def DIRECT_MAP_def)
  have d: "delimited '' Pair''" "delimited []"
    by (simp_all add: delimited_def WORD_CHARACTERS_AFTER_def WORD_CHARACTERS_def DIGIT_CHARACTERS_def)
  have l: "live_nodes ''class'' = [direct_node 28 5, identifier_end]"
    by (simp add: lexer_defs del: links.simps(1))
  have t: "token_type (direct_node 28 5) = Some class_kwd"
    by (simp add: length_DIRECT_MAP DIRECT_MAP_nth)
  from keyword_wins_over_identifier k d
  have "keyword_wins ''class'' class_kwd 0 '' Pair''" "keyword_wins ''class'' class_kwd 0 []"
    by blast+
  then have "fst (lex (lexer_at 0 (''class'' @ '' Pair''))) =
        Inr (Some \<lparr>tok_type = class_kwd, tok_start = 0, tok_end = 0 + length ''class'', tok_data = ''class''\<rparr>)"
    "fst (lex (lexer_at 0 (''class'' @ []))) =
        Inr (Some \<lparr>tok_type = class_kwd, tok_start = 0, tok_end = 0 + length ''class'', tok_data = ''class''\<rparr>)"
    unfolding keyword_wins_def by blast+
  then have "fst (lex (Lexer_init ''class Pair'')) =
        Inr (Some \<lparr>tok_type = class_kwd, tok_start = 0, tok_end = 5, tok_data = ''class''\<rparr>)"
    "fst (lex (Lexer_init ''class'')) =
        Inr (Some \<lparr>tok_type = class_kwd, tok_start = 0, tok_end = 5, tok_data = ''class''\<rparr>)"
    by (simp_all add: Lexer_init_lexer_at)
  with k d l t show ?thesis by simp
qed

section \<open>The parser and the members of Tokens\<close>

lemma Tokens_getattr_missing:
  "Tokens_getattr ''comment'' = Inl (AttributeError ''comment'')"
  "Tokens_getattr ''equal'' = Inl (AttributeError ''equal'')"
  by (simp_all add: Tokens_getattr_def Tokens_members_def)

lemma parser_Tokens_names_missing:
  "filter (\<lambda>name. map_of Tokens_members name = None) parser_Tokens_names = [''comment'', ''equal'']"
  by (simp add: parser_Tokens_names_def Tokens_members_def)

lemma parseUnaryOperation_faults:
  "parseUnaryOperation cs ps = Some (Inl (AttributeError ''comment''), ps)"
  by (simp add: parseUnaryOperation_def prefix_operations.simps[of "[]" ps] Tokens_getattr_missing)

lemma parseValue_faults:
  "parseValue cs ps = Some (Inl (AttributeError ''comment''), ps)"
  by (simp add: parseValue_def parseUnaryOperation_faults)

lemma parseLine_faults:
  assumes "lookAhead 1 ps = (Inr (Some token), ps1)"
  shows "parseLine cs ps = Some (Inl (AttributeError ''comment''), ps1)"
  using assms by (simp add: parseLine_def Tokens_getattr_missing)

lemma parseWhile_faults:
  assumes "Parser_next ps = (Inr (Some token), ps1)" and "tok_type token = while_kwd"
  shows "parseWhile cs ps = Some (Inl (AttributeError ''comment''), ps1)"
  using assms by (simp add: parseWhile_def parseValue_faults)

text \<open>
  The node that \<open>parseWhile\<close> builds when it returns is the one that C9 describes. With the
  \<open>Tokens\<close> of lexer.py it does not return a node (\<open>parseWhile_faults\<close>).
\<close>

lemma parseWhile_shape:
  assumes "parseWhile cs ps = Some (Inr r, ps')"
  shows "\<exists>condition instructions tokens.
           r = Loop_ir (Branch_ir condition [] [Break_ir []] [] # instructions) tokens"
  using assms
  by (auto simp: parseWhile_def split: prod.splits sum.splits option.splits if_splits)

lemmas parser_defs = Parser_init_def Lexer_init_def Parser_next_def lexer_lex_def lookAhead_def
  expect_def unexpected_def

lemma Parser_next_while:
  "Parser_next (Parser_init ''while x end'') =
     (Inr (Some \<lparr>tok_type = while_kwd, tok_start = 0, tok_end = 5, tok_data = ''while''\<rparr>),
      \<lparr>p_lexer = \<lparr>source = ''x end'', current = Some CHR '' '', position = 6\<rparr>, p_tokens = []\<rparr>)"
  by (simp add: parser_defs lexer_defs del: links.simps(1))

text \<open>
  C9. The claim: for every \<open>while COND \<dots> end\<close> the parser produces a \<open>Loop\<close> that begins
  with \<open>Branch(COND, [], [Break])\<close>. On the source text \<open>while x end\<close>, whatever the parser
  functions that are parameters here do, \<open>parseWhile\<close> reads the keyword and then fails in
  \<open>parseValue\<close> with the attribute lookup \<open>Tokens.comment\<close>: no node is produced.
\<close>

theorem parseWhile_raises_AttributeError:
  "map_option fst (parseWhile cs (Parser_init ''while x end'')) = Some (Inl (AttributeError ''comment''))"
  by (simp add: parseWhile_faults[OF Parser_next_while])

lemma lookAhead_x:
  "lookAhead 1 (Parser_init ''x'') =
     (Inr (Some \<lparr>tok_type = identifier_tok, tok_start = 0, tok_end = 1, tok_data = ''x''\<rparr>),
      \<lparr>p_lexer = \<lparr>source = [], current = None, position = 2\<rparr>,
       p_tokens = [Some \<lparr>tok_type = identifier_tok, tok_start = 0, tok_end = 1, tok_data = ''x''\<rparr>]\<rparr>)"
  by (simp add: parser_defs lexer_defs del: links.simps(1))

lemma parseMethodArguments_x:
  "map_option fst (parseMethodArguments cs (Parser_init ''(x)''))
     = Some (Inl (BuiltinTypeError ''__init__() takes from 2 to 4 positional arguments but 5 were given''))"
  by (simp add: parseMethodArguments_def method_arguments.simps[of cs "[]" "[]"] parseVariable_def
        parseTypeSig_def parser_defs lexer_defs del: links.simps(1))

text \<open>
  C10. The claim: every member of \<open>Tokens\<close> that the parser reads exists in the enumeration
  of lexer.py. Of the names that parser.py reads, \<open>comment\<close> and \<open>equal\<close> are not members
  (\<open>parser_Tokens_names_missing\<close>), and \<open>parseLine\<close> fails with the attribute lookup on the
  first token of any input, here \<open>x\<close>.
\<close>

theorem parser_reads_missing_Tokens_members:
  "map_of Tokens_members ''comment'' = None \<and> map_of Tokens_members ''equal'' = None
   \<and> map_option fst (parseLine cs (Parser_init ''x'')) = Some (Inl (AttributeError ''comment''))"
  using parseLine_faults[OF lookAhead_x, of cs]
  by (simp add: Tokens_members_def)

end
